theory Spec2Isabelle
  imports Complex_Main
begin

section \<open>Planar reflection pass (src/js/Reflector.js)\<close>

text \<open>
  The repository consists of one class, \<open>Reflector\<close>, built on the three.js library.
  Its constructor wires a render target and a shader material, installs the per-frame
  hook \<open>onBeforeRender\<close> and offers \<open>dispose\<close>; the default shader carries the
  overlay blend \<open>blendOverlay\<close>.

  Numbers: JavaScript numbers and GLSL floats are modelled as \<^typ>\<open>real\<close>, that is with
  exact arithmetic; rounding, NaN and infinities are outside the model. HOL's
  \<open>x / 0 = 0\<close> stands where JavaScript yields an infinity or NaN; no statement below
  relies on the value of such a quotient.
\<close>

subsection \<open>three.js value types: Vector3, Vector4, Plane, Matrix4\<close>

text \<open>
  These classes belong to the three.js library, which Reflector.js imports. The
  operations below are the small, arithmetic ones and are written after the library's
  documented behaviour. A \<open>Matrix4\<close> is its \<open>elements\<close> array: sixteen numbers in
  column-major order, so \<open>elements[r + 4 * c]\<close> is row \<open>r\<close>, column \<open>c\<close>.
\<close>

datatype vector3 = Vector3 (v3x: real) (v3y: real) (v3z: real)

datatype vector4 = Vector4 (v4x: real) (v4y: real) (v4z: real) (v4w: real)

datatype plane = Plane (pl_normal: vector3) (pl_constant: real)

type_synonym matrix4 = "real list"

definition setFromMatrixPosition :: "matrix4 \<Rightarrow> vector3" where
  "setFromMatrixPosition m = Vector3 (m ! 12) (m ! 13) (m ! 14)"

definition subVectors :: "vector3 \<Rightarrow> vector3 \<Rightarrow> vector3" where
  "subVectors a b = Vector3 (v3x a - v3x b) (v3y a - v3y b) (v3z a - v3z b)"

definition v3_add :: "vector3 \<Rightarrow> vector3 \<Rightarrow> vector3" where
  "v3_add a b = Vector3 (v3x a + v3x b) (v3y a + v3y b) (v3z a + v3z b)"

definition v3_dot :: "vector3 \<Rightarrow> vector3 \<Rightarrow> real" where
  "v3_dot a b = v3x a * v3x b + v3y a * v3y b + v3z a * v3z b"

definition v3_multiplyScalar :: "vector3 \<Rightarrow> real \<Rightarrow> vector3" where
  "v3_multiplyScalar a s = Vector3 (v3x a * s) (v3y a * s) (v3z a * s)"

definition v3_negate :: "vector3 \<Rightarrow> vector3" where
  "v3_negate a = Vector3 (- v3x a) (- v3y a) (- v3z a)"

definition v3_length :: "vector3 \<Rightarrow> real" where
  "v3_length a = sqrt (v3x a * v3x a + v3y a * v3y a + v3z a * v3z a)"

text \<open>\<open>Vector3.reflect(n)\<close>: \<open>this.sub(n * (2 * this.dot(n)))\<close>.\<close>

definition v3_reflect :: "vector3 \<Rightarrow> vector3 \<Rightarrow> vector3" where
  "v3_reflect a n = subVectors a (v3_multiplyScalar n (2 * v3_dot a n))"

text \<open>\<open>Vector3.applyMatrix4(m)\<close>: the point transformed by \<open>m\<close>, with perspective divide.\<close>

definition v3_applyMatrix4 :: "vector3 \<Rightarrow> matrix4 \<Rightarrow> vector3" where
  "v3_applyMatrix4 a e =
     (let w = 1 / (e ! 3 * v3x a + e ! 7 * v3y a + e ! 11 * v3z a + e ! 15)
      in Vector3 ((e ! 0 * v3x a + e ! 4 * v3y a + e ! 8 * v3z a + e ! 12) * w)
                 ((e ! 1 * v3x a + e ! 5 * v3y a + e ! 9 * v3z a + e ! 13) * w)
                 ((e ! 2 * v3x a + e ! 6 * v3y a + e ! 10 * v3z a + e ! 14) * w))"

definition v4_dot :: "vector4 \<Rightarrow> vector4 \<Rightarrow> real" where
  "v4_dot a b = v4x a * v4x b + v4y a * v4y b + v4z a * v4z b + v4w a * v4w b"

definition v4_multiplyScalar :: "vector4 \<Rightarrow> real \<Rightarrow> vector4" where
  "v4_multiplyScalar a s = Vector4 (v4x a * s) (v4y a * s) (v4z a * s) (v4w a * s)"

text \<open>\<open>Plane.setFromNormalAndCoplanarPoint(n, p)\<close>: normal \<open>n\<close>, constant \<open>- p.dot(n)\<close>.\<close>

definition setFromNormalAndCoplanarPoint :: "vector3 \<Rightarrow> vector3 \<Rightarrow> plane" where
  "setFromNormalAndCoplanarPoint n p = Plane n (- v3_dot p n)"

text \<open>\<open>Matrix4.set\<close> takes its sixteen arguments in row-major order and stores them
  column-major.\<close>

definition Matrix4_set ::
  "real \<Rightarrow> real \<Rightarrow> real \<Rightarrow> real \<Rightarrow> real \<Rightarrow> real \<Rightarrow> real \<Rightarrow> real \<Rightarrow>
   real \<Rightarrow> real \<Rightarrow> real \<Rightarrow> real \<Rightarrow> real \<Rightarrow> real \<Rightarrow> real \<Rightarrow> real \<Rightarrow> matrix4" where
  "Matrix4_set n11 n12 n13 n14 n21 n22 n23 n24 n31 n32 n33 n34 n41 n42 n43 n44 =
     [n11, n21, n31, n41, n12, n22, n32, n42, n13, n23, n33, n43, n14, n24, n34, n44]"

text \<open>\<open>a.multiply(b)\<close> sets \<open>a\<close> to the matrix product \<open>a * b\<close>
  (\<open>Matrix4.multiplyMatrices\<close>): \<open>a11\<close> is \<open>a.elements[0]\<close>, \<open>a12\<close> is
  \<open>a.elements[4]\<close>, and so on; the result is stored column by column.\<close>

definition multiply :: "matrix4 \<Rightarrow> matrix4 \<Rightarrow> matrix4" where
  "multiply a b =
     (let a11 = a ! 0; a12 = a ! 4; a13 = a ! 8; a14 = a ! 12;
          a21 = a ! 1; a22 = a ! 5; a23 = a ! 9; a24 = a ! 13;
          a31 = a ! 2; a32 = a ! 6; a33 = a ! 10; a34 = a ! 14;
          a41 = a ! 3; a42 = a ! 7; a43 = a ! 11; a44 = a ! 15;
          b11 = b ! 0; b12 = b ! 4; b13 = b ! 8; b14 = b ! 12;
          b21 = b ! 1; b22 = b ! 5; b23 = b ! 9; b24 = b ! 13;
          b31 = b ! 2; b32 = b ! 6; b33 = b ! 10; b34 = b ! 14;
          b41 = b ! 3; b42 = b ! 7; b43 = b ! 11; b44 = b ! 15
      in [a11 * b11 + a12 * b21 + a13 * b31 + a14 * b41,
          a21 * b11 + a22 * b21 + a23 * b31 + a24 * b41,
          a31 * b11 + a32 * b21 + a33 * b31 + a34 * b41,
          a41 * b11 + a42 * b21 + a43 * b31 + a44 * b41,
          a11 * b12 + a12 * b22 + a13 * b32 + a14 * b42,
          a21 * b12 + a22 * b22 + a23 * b32 + a24 * b42,
          a31 * b12 + a32 * b22 + a33 * b32 + a34 * b42,
          a41 * b12 + a42 * b22 + a43 * b32 + a44 * b42,
          a11 * b13 + a12 * b23 + a13 * b33 + a14 * b43,
          a21 * b13 + a22 * b23 + a23 * b33 + a24 * b43,
          a31 * b13 + a32 * b23 + a33 * b33 + a34 * b43,
          a41 * b13 + a42 * b23 + a43 * b33 + a44 * b43,
          a11 * b14 + a12 * b24 + a13 * b34 + a14 * b44,
          a21 * b14 + a22 * b24 + a23 * b34 + a24 * b44,
          a31 * b14 + a32 * b24 + a33 * b34 + a34 * b44,
          a41 * b14 + a42 * b24 + a43 * b34 + a44 * b44])"

text \<open>\<open>Matrix4.extractRotation(m)\<close>: the upper 3x3 block of \<open>m\<close> with each column
  divided by its length, no translation.\<close>

definition extractRotation :: "matrix4 \<Rightarrow> matrix4" where
  "extractRotation m =
     (let scaleX = 1 / v3_length (Vector3 (m ! 0) (m ! 1) (m ! 2));
          scaleY = 1 / v3_length (Vector3 (m ! 4) (m ! 5) (m ! 6));
          scaleZ = 1 / v3_length (Vector3 (m ! 8) (m ! 9) (m ! 10))
      in [m ! 0 * scaleX, m ! 1 * scaleX, m ! 2 * scaleX, 0,
          m ! 4 * scaleY, m ! 5 * scaleY, m ! 6 * scaleY, 0,
          m ! 8 * scaleZ, m ! 9 * scaleZ, m ! 10 * scaleZ, 0,
          0, 0, 0, 1])"

subsection \<open>The fragment shader's overlay blend\<close>

text \<open>
  \<^verbatim>\<open>float blendOverlay( float base, float blend ) {
    return( base < 0.5 ? ( 2.0 * base * blend ) : ( 1.0 - 2.0 * ( 1.0 - base ) * ( 1.0 - blend ) ) );
  }\<close>
  and its per-channel lifting to \<open>vec3\<close>.
\<close>

definition blendOverlay :: "real \<Rightarrow> real \<Rightarrow> real" where
  "blendOverlay base blend =
     (if base < 0.5 then 2.0 * base * blend else 1.0 - 2.0 * (1.0 - base) * (1.0 - blend))"

definition blendOverlay_vec3 :: "vector3 \<Rightarrow> vector3 \<Rightarrow> vector3" where
  "blendOverlay_vec3 base blend =
     Vector3 (blendOverlay (v3x base) (v3x blend))
             (blendOverlay (v3y base) (v3y blend))
             (blendOverlay (v3z base) (v3z blend))"

subsection \<open>Cameras, render targets, materials, the renderer\<close>

text \<open>
  A \<open>PerspectiveCamera\<close> with the fields Reflector.js reads or writes. The real camera
  handed to the hook and the reflector's own \<open>virtualCamera\<close> are both of this class.
\<close>

record perspectiveCamera =
  position :: vector3
  up :: vector3
  far :: real
  matrixWorld :: matrix4
  matrixWorldInverse :: matrix4
  projectionMatrix :: matrix4

text \<open>
  The larger three.js operations are parameters of the model: the hook's theorems hold
  for whatever they return.
  \<^item> \<open>lookAt_updateMatrixWorld p u t\<close> is the world matrix of a parentless camera at
    position \<open>p\<close> with up vector \<open>u\<close> after \<open>lookAt(t)\<close> and \<open>updateMatrixWorld()\<close>;
  \<^item> \<open>invert m\<close> is \<open>Matrix4.invert\<close>, which \<open>Camera.updateMatrixWorld\<close> uses for
    \<open>matrixWorldInverse\<close>;
  \<^item> \<open>plane_applyMatrix4 pl m\<close> is \<open>Plane.applyMatrix4\<close>.
  None of them writes the camera's \<open>position\<close>, \<open>up\<close>, \<open>far\<close> or \<open>projectionMatrix\<close>.
\<close>

record three =
  lookAt_updateMatrixWorld :: "vector3 \<Rightarrow> vector3 \<Rightarrow> vector3 \<Rightarrow> matrix4"
  invert :: "matrix4 \<Rightarrow> matrix4"
  plane_applyMatrix4 :: "plane \<Rightarrow> matrix4 \<Rightarrow> plane"

text \<open>
  Render targets and materials are three.js \<open>EventDispatcher\<close>s, and \<open>dispose()\<close> of
  either is \<open>this.dispatchEvent({ type: 'dispose' })\<close>: every listener registered for
  \<open>dispose\<close> on the object is called, in the order of registration.
  \<^item> \<open>RendererListener\<close> is the listener the renderer registers on an object when it
    creates GPU objects for it (the framebuffer and textures of a render target when it
    is first bound, the compiled program of a material when it is first drawn). When
    called it removes itself and deletes those GPU objects. The renderer holds GPU
    objects for an object exactly while this listener is registered on it.
  \<^item> \<open>HostListener k\<close> is a listener the host registered with
    \<open>addEventListener('dispose', f)\<close>; it stays registered when called.
  \<open>dispatchDispose\<close> returns the listeners left registered and the host listeners it
  called.
\<close>

datatype listener = RendererListener | HostListener nat

fun hostListeners :: "listener list \<Rightarrow> nat list" where
  "hostListeners [] = []"
| "hostListeners (RendererListener # ls) = hostListeners ls"
| "hostListeners (HostListener k # ls) = k # hostListeners ls"

definition dispatchDispose :: "listener list \<Rightarrow> listener list \<times> nat list" where
  "dispatchDispose ls = (filter (\<lambda>l. l \<noteq> RendererListener) ls, hostListeners ls)"

text \<open>\<open>addEventListener('dispose', f)\<close> appends a listener that is not yet registered;
  \<open>registerRenderer\<close> is what the renderer does when it creates GPU objects.\<close>

definition addEventListener :: "listener list \<Rightarrow> listener \<Rightarrow> listener list" where
  "addEventListener ls l = (if l \<in> set ls then ls else ls @ [l])"

definition registerRenderer :: "listener list \<Rightarrow> listener list" where
  "registerRenderer ls = addEventListener ls RendererListener"

text \<open>A \<open>WebGLRenderTarget\<close>, known to the renderer by its identity \<open>rt_id\<close>.\<close>

record webGLRenderTarget =
  rt_id :: nat
  rt_width :: real
  rt_height :: real
  rt_listeners :: "listener list"

definition rt_gpu_allocated :: "webGLRenderTarget \<Rightarrow> bool" where
  "rt_gpu_allocated t = (RendererListener \<in> set (rt_listeners t))"

definition WebGLRenderTarget_dispose :: "webGLRenderTarget \<Rightarrow> webGLRenderTarget \<times> nat list" where
  "WebGLRenderTarget_dispose t =
     (case dispatchDispose (rt_listeners t) of (ls, called) \<Rightarrow> (t\<lparr>rt_listeners := ls\<rparr>, called))"

text \<open>
  The value of a uniform. \<open>UTexture i\<close> is the \<open>texture\<close> of render target \<open>i\<close>;
  \<open>UTextureMatrix\<close> is a reference to the reflector's \<open>textureMatrix\<close> object, which
  the hook mutates in place: the shader sees the reflector's current \<open>textureMatrix\<close>.
\<close>

datatype uniform_value = UNull | UFloat real | UColor nat | UTexture nat | UTextureMatrix

datatype program = ReflectorVertexShader | ReflectorFragmentShader | CustomProgram string

record shader =
  sh_uniforms :: "string \<rightharpoonup> uniform_value"
  sh_vertexShader :: program
  sh_fragmentShader :: program

record shaderMaterial =
  uniforms :: "string \<rightharpoonup> uniform_value"
  fragmentShader :: program
  vertexShader :: program
  transparent :: bool
  opacity :: real
  mat_listeners :: "listener list"

definition mat_gpu_allocated :: "shaderMaterial \<Rightarrow> bool" where
  "mat_gpu_allocated m = (RendererListener \<in> set (mat_listeners m))"

definition Material_dispose :: "shaderMaterial \<Rightarrow> shaderMaterial \<times> nat list" where
  "Material_dispose m =
     (case dispatchDispose (mat_listeners m) of (ls, called) \<Rightarrow> (m\<lparr>mat_listeners := ls\<rparr>, called))"

text \<open>
  The renderer state the hook touches, and a log of the \<open>render\<close> calls it receives.
  Each entry records what the call was given and the renderer state it ran under.
  \<open>currentRenderTarget = None\<close> is JavaScript's \<open>null\<close>: the canvas. A render
  target's contents change only by a \<open>render\<close> call logged with that target.
\<close>

type_synonym scene = nat

record renderCall =
  rc_scene :: scene
  rc_camera :: perspectiveCamera
  rc_target :: "nat option"
  rc_xr_enabled :: bool
  rc_shadowMap_autoUpdate :: bool
  rc_blending :: nat
  rc_scope_visible :: bool

record webGLRenderer =
  currentRenderTarget :: "nat option"
  xr_enabled :: bool
  shadowMap_autoUpdate :: bool
  state_blending :: nat
  rendered :: "renderCall list"

definition setRenderTarget :: "webGLRenderer \<Rightarrow> nat option \<Rightarrow> webGLRenderer" where
  "setRenderTarget r t = r\<lparr>currentRenderTarget := t\<rparr>"

definition getRenderTarget :: "webGLRenderer \<Rightarrow> nat option" where
  "getRenderTarget r = currentRenderTarget r"

definition setBlending :: "webGLRenderer \<Rightarrow> nat \<Rightarrow> webGLRenderer" where
  "setBlending r b = r\<lparr>state_blending := b\<rparr>"

text \<open>\<open>renderer.render(scene, camera)\<close>; \<open>vis\<close> is the reflector's \<open>visible\<close> flag at
  the time of the call, which decides whether the scene traversal draws it.\<close>

definition render :: "webGLRenderer \<Rightarrow> scene \<Rightarrow> perspectiveCamera \<Rightarrow> bool \<Rightarrow> webGLRenderer" where
  "render r sc cam vis =
     r\<lparr>rendered := rendered r @
         [\<lparr>rc_scene = sc, rc_camera = cam, rc_target = currentRenderTarget r,
           rc_xr_enabled = xr_enabled r, rc_shadowMap_autoUpdate = shadowMap_autoUpdate r,
           rc_blending = state_blending r, rc_scope_visible = vis\<rparr>]\<rparr>"

subsection \<open>The Reflector\<close>

text \<open>
  The instance: the \<open>Mesh\<close> fields the hook uses (\<open>scope.matrixWorld\<close>,
  \<open>scope.visible\<close>), \<open>this.camera\<close> (the closure's \<open>virtualCamera\<close>), the closure's
  \<open>textureMatrix\<close> and \<open>clipBias\<close>, \<open>this.renderTarget\<close> and \<open>this.material\<close>.
  The closure's scratch objects (\<open>reflectorWorldPosition\<close>, \<open>cameraWorldPosition\<close>,
  \<open>rotationMatrix\<close>, \<open>normal\<close>, \<open>view\<close>, \<open>target\<close>, \<open>lookAtPosition\<close>,
  \<open>reflectorPlane\<close>, \<open>clipPlane\<close>, \<open>q\<close>) are written before they are read in every
  call and are not visible outside it; they are local values here.
\<close>

record reflector =
  scope_matrixWorld :: matrix4
  scope_visible :: bool
  virtualCamera :: perspectiveCamera
  textureMatrix :: matrix4
  clipBias :: real
  renderTarget :: webGLRenderTarget
  material :: shaderMaterial

subsubsection \<open>Constructor (lines 5 to 56)\<close>

record options =
  opt_color :: "nat option"
  opt_textureWidth :: "real option"
  opt_textureHeight :: "real option"
  opt_clipBias :: "real option"
  opt_shader :: "shader option"
  opt_opacity :: "real option"
  opt_transparent :: "bool option"

datatype error = TypeError

text \<open>\<open>v || d\<close> on an optional number: \<open>undefined\<close> and \<open>0\<close> are falsy.\<close>

definition js_or :: "real option \<Rightarrow> real \<Rightarrow> real" where
  "js_or v d = (case v of None \<Rightarrow> d | Some n \<Rightarrow> if n = 0 then d else n)"

text \<open>\<open>Reflector.ReflectorShader\<close> (lines 175 to 220).\<close>

definition ReflectorShader :: shader where
  "ReflectorShader =
     \<lparr>sh_uniforms = [''color'' \<mapsto> UNull, ''tDiffuse'' \<mapsto> UNull, ''textureMatrix'' \<mapsto> UNull,
                     ''opacity'' \<mapsto> UFloat 0.3, ''floorTexture'' \<mapsto> UNull],
      sh_vertexShader = ReflectorVertexShader,
      sh_fragmentShader = ReflectorFragmentShader\<rparr>"

text \<open>\<open>uniforms[name].value = v\<close>: a TypeError when the shader has no such uniform.\<close>

definition set_uniform ::
  "(string \<rightharpoonup> uniform_value) \<Rightarrow> string \<Rightarrow> uniform_value \<Rightarrow> error + (string \<rightharpoonup> uniform_value)" where
  "set_uniform us name v = (case us name of None \<Rightarrow> Inl TypeError | Some _ \<Rightarrow> Inr (us(name \<mapsto> v)))"

definition identity :: matrix4 where
  "identity = Matrix4_set 1 0 0 0  0 1 0 0  0 0 1 0  0 0 0 1"

text \<open>
  \<open>newCamera\<close> is the value of \<open>new PerspectiveCamera()\<close> and \<open>rtId\<close> the identity of
  the \<open>new WebGLRenderTarget\<close>. The default colour \<open>0x7F7F7F\<close> is 8355711.
  \<open>UniformsUtils.clone\<close> copies the uniforms' values.
\<close>

definition Reflector_constructor :: "perspectiveCamera \<Rightarrow> nat \<Rightarrow> options \<Rightarrow> error + reflector" where
  "Reflector_constructor newCamera rtId opts =
     (let color = (case opt_color opts of Some c \<Rightarrow> c | None \<Rightarrow> 8355711);
          textureWidth = js_or (opt_textureWidth opts) 512;
          textureHeight = js_or (opt_textureHeight opts) 512;
          clipBias0 = js_or (opt_clipBias opts) 0;
          shader0 = (case opt_shader opts of Some s \<Rightarrow> s | None \<Rightarrow> ReflectorShader);
          opacity0 = js_or (opt_opacity opts) 1.0;
          transparent0 = (case opt_transparent opts of Some t \<Rightarrow> t | None \<Rightarrow> True);
          renderTarget0 = \<lparr>rt_id = rtId, rt_width = textureWidth, rt_height = textureHeight,
                           rt_listeners = []\<rparr>;
          material0 = \<lparr>uniforms = sh_uniforms shader0,
                       fragmentShader = sh_fragmentShader shader0,
                       vertexShader = sh_vertexShader shader0,
                       transparent = transparent0,
                       opacity = opacity0,
                       mat_listeners = []\<rparr>
      in case set_uniform (uniforms material0) ''tDiffuse'' (UTexture rtId) of
           Inl e \<Rightarrow> Inl e
         | Inr u1 \<Rightarrow>
        (case set_uniform u1 ''color'' (UColor color) of
           Inl e \<Rightarrow> Inl e
         | Inr u2 \<Rightarrow>
        (case set_uniform u2 ''textureMatrix'' UTextureMatrix of
           Inl e \<Rightarrow> Inl e
         | Inr u3 \<Rightarrow>
             Inr \<lparr>scope_matrixWorld = identity, scope_visible = True,
                  virtualCamera = newCamera, textureMatrix = identity,
                  clipBias = clipBias0, renderTarget = renderTarget0,
                  material = material0\<lparr>uniforms := u3\<rparr>\<rparr>)))"

subsubsection \<open>dispose (lines 166 to 171)\<close>

text \<open>
  \<open>this.renderTarget.dispose(); this.material.dispose();\<close> The result is the instance
  after both calls and the host listeners called, each with the object it was called
  on, in the order of the calls. Neither statement assigns a field of \<open>this\<close>.
\<close>

datatype disposed = TheRenderTarget | TheMaterial

definition dispose :: "reflector \<Rightarrow> reflector \<times> (disposed \<times> nat) list" where
  "dispose this =
     (case WebGLRenderTarget_dispose (renderTarget this) of (t, called1) \<Rightarrow>
        let this1 = this\<lparr>renderTarget := t\<rparr>
        in case Material_dispose (material this1) of (m, called2) \<Rightarrow>
             (this1\<lparr>material := m\<rparr>,
              map (Pair TheRenderTarget) called1 @ map (Pair TheMaterial) called2))"

subsubsection \<open>onBeforeRender (lines 58 to 162)\<close>

text \<open>Lines 60 to 68: the world positions, the surface's world normal and the vector
  from the camera to the surface.\<close>

definition reflectorWorldPosition :: "reflector \<Rightarrow> vector3" where
  "reflectorWorldPosition scope = setFromMatrixPosition (scope_matrixWorld scope)"

definition cameraWorldPosition :: "perspectiveCamera \<Rightarrow> vector3" where
  "cameraWorldPosition cam = setFromMatrixPosition (matrixWorld cam)"

definition normal :: "reflector \<Rightarrow> vector3" where
  "normal scope = v3_applyMatrix4 (Vector3 0 0 1) (extractRotation (scope_matrixWorld scope))"

definition view :: "reflector \<Rightarrow> perspectiveCamera \<Rightarrow> vector3" where
  "view scope cam = subVectors (reflectorWorldPosition scope) (cameraWorldPosition cam)"

text \<open>Lines 74 to 96: the virtual camera, with the real camera's projection matrix.\<close>

definition deriveVirtualCamera :: "three \<Rightarrow> reflector \<Rightarrow> perspectiveCamera \<Rightarrow> perspectiveCamera" where
  "deriveVirtualCamera L scope cam =
     (let view1 = v3_add (v3_negate (v3_reflect (view scope cam) (normal scope)))
                    (reflectorWorldPosition scope);
          rotationMatrix = extractRotation (matrixWorld cam);
          lookAtPosition = v3_add (v3_applyMatrix4 (Vector3 0 0 (- 1)) rotationMatrix)
                             (cameraWorldPosition cam);
          target = v3_add (v3_negate (v3_reflect
                     (subVectors (reflectorWorldPosition scope) lookAtPosition) (normal scope)))
                     (reflectorWorldPosition scope);
          up1 = v3_reflect (v3_applyMatrix4 (Vector3 0 1 0) rotationMatrix) (normal scope);
          world = lookAt_updateMatrixWorld L view1 up1 target
      in (virtualCamera scope)
           \<lparr>position := view1, up := up1, far := far cam,
            matrixWorld := world, matrixWorldInverse := invert L world,
            projectionMatrix := projectionMatrix cam\<rparr>)"

text \<open>Lines 99 to 107: the texture matrix.\<close>

definition biasMatrix :: matrix4 where
  "biasMatrix = Matrix4_set 0.5 0.0 0.0 0.5
                            0.0 0.5 0.0 0.5
                            0.0 0.0 0.5 0.5
                            0.0 0.0 0.0 1.0"

definition updateTextureMatrix :: "perspectiveCamera \<Rightarrow> reflector \<Rightarrow> matrix4" where
  "updateTextureMatrix vc scope =
     multiply (multiply (multiply biasMatrix (projectionMatrix vc)) (matrixWorldInverse vc))
       (scope_matrixWorld scope)"

text \<open>Lines 111 to 114: the mirror plane in the virtual camera's view space, as a
  \<open>Vector4\<close>.\<close>

definition viewSpaceClipPlane :: "three \<Rightarrow> reflector \<Rightarrow> perspectiveCamera \<Rightarrow> vector4" where
  "viewSpaceClipPlane L scope vc =
     (let reflectorPlane = plane_applyMatrix4 L
            (setFromNormalAndCoplanarPoint (normal scope) (reflectorWorldPosition scope))
            (matrixWorldInverse vc)
      in Vector4 (v3x (pl_normal reflectorPlane)) (v3y (pl_normal reflectorPlane))
                 (v3z (pl_normal reflectorPlane)) (pl_constant reflectorPlane))"

text \<open>Lines 116 to 130: \<open>q\<close>, the scaled plane, and the four element writes.\<close>

definition clip_q :: "matrix4 \<Rightarrow> vector4 \<Rightarrow> vector4" where
  "clip_q pm clipPlane =
     Vector4 ((sgn (v4x clipPlane) + pm ! 8) / pm ! 0)
             ((sgn (v4y clipPlane) + pm ! 9) / pm ! 5)
             (- 1.0)
             ((1.0 + pm ! 10) / pm ! 14)"

definition obliqueClip :: "matrix4 \<Rightarrow> vector4 \<Rightarrow> real \<Rightarrow> matrix4" where
  "obliqueClip pm clipPlane bias =
     (let q = clip_q pm clipPlane;
          clipPlane1 = v4_multiplyScalar clipPlane (2.0 / v4_dot clipPlane q)
      in pm[2 := v4x clipPlane1,
            6 := v4y clipPlane1,
            10 := v4z clipPlane1 + 1.0 - bias,
            14 := v4w clipPlane1])"

text \<open>
  The hook. It returns at once when \<open>view.dot(normal) > 0\<close>; otherwise it runs lines 74
  to 160 in the order of the source.
\<close>

definition onBeforeRender ::
  "three \<Rightarrow> reflector \<Rightarrow> webGLRenderer \<Rightarrow> scene \<Rightarrow> perspectiveCamera \<Rightarrow> reflector \<times> webGLRenderer" where
  "onBeforeRender L scope renderer sc cam =
     (if v3_dot (view scope cam) (normal scope) > 0 then (scope, renderer)
      else
       let vc = deriveVirtualCamera L scope cam;
           scope1 = scope\<lparr>virtualCamera := vc\<rparr>;
           scope2 = scope1\<lparr>textureMatrix := updateTextureMatrix vc scope1\<rparr>;
           clipPlane = viewSpaceClipPlane L scope2 vc;
           vc1 = vc\<lparr>projectionMatrix := obliqueClip (projectionMatrix vc) clipPlane (clipBias scope2)\<rparr>;
           scope3 = scope2\<lparr>virtualCamera := vc1\<rparr>;
           r1 = setRenderTarget renderer (Some (rt_id (renderTarget scope3)));
           r2 = setBlending r1 0;
           r3 = render r2 sc (virtualCamera scope3) (scope_visible scope3);
           r4 = setRenderTarget r3 None;
           currentRenderTarget1 = getRenderTarget r4;
           currentXrEnabled = xr_enabled r4;
           currentShadowAutoUpdate = shadowMap_autoUpdate r4;
           r5 = r4\<lparr>xr_enabled := False\<rparr>;
           r6 = r5\<lparr>shadowMap_autoUpdate := False\<rparr>;
           r7 = setRenderTarget r6 currentRenderTarget1;
           r8 = r7\<lparr>xr_enabled := currentXrEnabled\<rparr>;
           r9 = r8\<lparr>shadowMap_autoUpdate := currentShadowAutoUpdate\<rparr>;
           scope4 = scope3\<lparr>scope_visible := False\<rparr>;
           r10 = render r9 sc cam (scope_visible scope4);
           scope5 = scope4\<lparr>scope_visible := True\<rparr>
       in (scope5, r10))"

subsection \<open>The oblique clip adjustment as the specification words it\<close>

text \<open>
  \<open>q.x = (sign(normal.x) + m[8]) / m[0]\<close>, \<open>q.y = (sign(normal.y) + m[9]) / m[5]\<close>,
  \<open>q.z = -1\<close>, \<open>q.w = (1 + m[10]) / m[14]\<close>; the plane scaled by
  \<open>2 / dot(plane, q)\<close>; the row \<open>(x, y, z + 1 - clipBias, w)\<close> of the scaled plane.
\<close>

definition spec_q :: "vector4 \<Rightarrow> matrix4 \<Rightarrow> vector4" where
  "spec_q pl m =
     Vector4 ((sgn (v4x pl) + m ! 8) / m ! 0) ((sgn (v4y pl) + m ! 9) / m ! 5) (- 1)
             ((1 + m ! 10) / m ! 14)"

definition spec_scaled_plane :: "vector4 \<Rightarrow> matrix4 \<Rightarrow> vector4" where
  "spec_scaled_plane pl m =
     (let q = spec_q pl m;
          s = 2 / (v4x pl * v4x q + v4y pl * v4y q + v4z pl * v4z q + v4w pl * v4w q)
      in Vector4 (s * v4x pl) (s * v4y pl) (s * v4z pl) (s * v4w pl))"

definition spec_clip_row :: "vector4 \<Rightarrow> matrix4 \<Rightarrow> real \<Rightarrow> vector4" where
  "spec_clip_row pl m bias =
     (let p = spec_scaled_plane pl m in Vector4 (v4x p) (v4y p) (v4z p + 1 - bias) (v4w p))"

subsection \<open>Sample frames\<close>

text \<open>
  A mirror at the origin facing \<open>+Z\<close> (world matrix the identity), as the constructor
  leaves it with default options and render target 1, and a camera at \<open>(0, 0, 5)\<close>
  looking down \<open>-Z\<close> at it, with a 90 degree, square frustum from 1 to 11.
\<close>

definition sampleCamera :: perspectiveCamera where
  "sampleCamera =
     \<lparr>position = Vector3 0 0 5, up = Vector3 0 1 0, far = 11,
      matrixWorld = Matrix4_set 1 0 0 0  0 1 0 0  0 0 1 5  0 0 0 1,
      matrixWorldInverse = Matrix4_set 1 0 0 0  0 1 0 0  0 0 1 (- 5)  0 0 0 1,
      projectionMatrix = Matrix4_set 1 0 0 0  0 1 0 0  0 0 (- 6 / 5) (- 11 / 5)  0 0 (- 1) 0\<rparr>"

text \<open>The reflector's own camera before its first frame. The hook writes every one of
  these fields before it reads it, so the values stand for whatever
  \<open>new PerspectiveCamera()\<close> holds.\<close>

definition unusedCamera :: perspectiveCamera where
  "unusedCamera =
     \<lparr>position = Vector3 0 0 0, up = Vector3 0 1 0, far = 2000,
      matrixWorld = identity, matrixWorldInverse = identity, projectionMatrix = identity\<rparr>"

definition sampleScope :: reflector where
  "sampleScope =
     \<lparr>scope_matrixWorld = identity, scope_visible = True,
      virtualCamera = unusedCamera, textureMatrix = identity, clipBias = 0,
      renderTarget = \<lparr>rt_id = 1, rt_width = 512, rt_height = 512, rt_listeners = []\<rparr>,
      material = \<lparr>uniforms = [''color'' \<mapsto> UColor 8355711, ''tDiffuse'' \<mapsto> UTexture 1,
                               ''textureMatrix'' \<mapsto> UTextureMatrix, ''opacity'' \<mapsto> UFloat 0.3,
                               ''floorTexture'' \<mapsto> UNull],
                  fragmentShader = ReflectorFragmentShader,
                  vertexShader = ReflectorVertexShader,
                  transparent = True, opacity = 1, mat_listeners = []\<rparr>\<rparr>"

text \<open>The same mirror with a clip bias of \<open>1 / 4\<close>.\<close>

definition biasedScope :: reflector where
  "biasedScope = sampleScope\<lparr>clipBias := 1 / 4\<rparr>"

text \<open>
  What the three.js operations return in that frame. The virtual camera sits at
  \<open>(0, 0, -5)\<close> and looks at \<open>(0, 0, -4)\<close> with up \<open>(0, 1, 0)\<close>: a half turn about
  \<open>Y\<close>, so its world matrix has rotation \<open>diag(-1, 1, -1)\<close> and translation
  \<open>(0, 0, -5)\<close> and is its own inverse. The mirror plane \<open>z = 0\<close> becomes, in that
  camera's view space, the plane with normal \<open>(0, 0, -1)\<close> and constant \<open>-5\<close>.
\<close>

definition sampleThree :: three where
  "sampleThree =
     \<lparr>lookAt_updateMatrixWorld =
        (\<lambda>p u t. Matrix4_set (- 1) 0 0 0  0 1 0 0  0 0 (- 1) (- 5)  0 0 0 1),
      invert = (\<lambda>m. Matrix4_set (- 1) 0 0 0  0 1 0 0  0 0 (- 1) (- 5)  0 0 0 1),
      plane_applyMatrix4 = (\<lambda>pl m. Plane (Vector3 0 0 (- 1)) (- 5))\<rparr>"

text \<open>A host renderer that is drawing into its own render target 7, with XR and
  automatic shadow-map updates on, normal blending (1), and nothing rendered yet.\<close>

definition sampleRenderer :: webGLRenderer where
  "sampleRenderer =
     \<lparr>currentRenderTarget = Some 7, xr_enabled = True, shadowMap_autoUpdate = True,
      state_blending = 1, rendered = []\<rparr>"

text \<open>A camera exactly on the mirror plane of \<open>sampleScope\<close>, at \<open>(5, 0, 0)\<close>.\<close>

definition onPlaneCamera :: perspectiveCamera where
  "onPlaneCamera =
     sampleCamera\<lparr>position := Vector3 5 0 0,
                  matrixWorld := Matrix4_set 1 0 0 5  0 1 0 0  0 0 1 0  0 0 0 1,
                  matrixWorldInverse := Matrix4_set 1 0 0 (- 5)  0 1 0 0  0 0 1 0  0 0 0 1\<rparr>"

text \<open>A camera behind the mirror of \<open>sampleScope\<close>, at \<open>(0, 0, -5)\<close>.\<close>

definition behindCamera :: perspectiveCamera where
  "behindCamera =
     sampleCamera\<lparr>position := Vector3 0 0 (- 5),
                  matrixWorld := Matrix4_set 1 0 0 0  0 1 0 0  0 0 1 (- 5)  0 0 0 1,
                  matrixWorldInverse := Matrix4_set 1 0 0 0  0 1 0 0  0 0 1 5  0 0 0 1\<rparr>"

text \<open>In the on-plane frame the virtual camera coincides with the camera's position
  and looks at \<open>(5, 0, 1)\<close>; the mirror plane passes through it.\<close>

definition onPlaneThree :: three where
  "onPlaneThree =
     \<lparr>lookAt_updateMatrixWorld =
        (\<lambda>p u t. Matrix4_set (- 1) 0 0 5  0 1 0 0  0 0 (- 1) 0  0 0 0 1),
      invert = (\<lambda>m. Matrix4_set (- 1) 0 0 5  0 1 0 0  0 0 (- 1) 0  0 0 0 1),
      plane_applyMatrix4 = (\<lambda>pl m. Plane (Vector3 0 0 (- 1)) 0)\<rparr>"

text \<open>
  The scenario of a horizontal mirror: the surface lies in the plane \<open>y = 0\<close>, turned
  by a quarter turn about \<open>X\<close> so that its local \<open>+Z\<close> is the world's \<open>+Y\<close>; the
  camera is at \<open>(0, 5, 10)\<close> and looks at the origin, so its axes are
  \<open>(1, 0, 0)\<close>, \<open>(0, 2, -1) / sqrt 5\<close> and \<open>(0, 1, 2) / sqrt 5\<close>.
\<close>

definition horizontalMirror :: reflector where
  "horizontalMirror =
     sampleScope\<lparr>scope_matrixWorld := Matrix4_set 1 0 0 0  0 0 1 0  0 (- 1) 0 0  0 0 0 1\<rparr>"

definition scenarioCamera :: perspectiveCamera where
  "scenarioCamera =
     sampleCamera\<lparr>position := Vector3 0 5 10,
                  matrixWorld := Matrix4_set 1 0 0 0
                                             0 (2 / sqrt 5) (1 / sqrt 5) 5
                                             0 (- 1 / sqrt 5) (2 / sqrt 5) 10
                                             0 0 0 1,
                  matrixWorldInverse := Matrix4_set 1 0 0 0
                                                    0 (2 / sqrt 5) (- 1 / sqrt 5) 0
                                                    0 (1 / sqrt 5) (2 / sqrt 5) (- 5 * sqrt 5)
                                                    0 0 0 1\<rparr>"

text \<open>In the scenario the virtual camera sits at \<open>(0, -5, 10)\<close> with axes
  \<open>(-1, 0, 0)\<close>, \<open>(0, -2, -1) / sqrt 5\<close> and \<open>(0, -1, 2) / sqrt 5\<close>.\<close>

definition scenarioThree :: three where
  "scenarioThree =
     \<lparr>lookAt_updateMatrixWorld =
        (\<lambda>p u t. Matrix4_set (- 1) 0 0 0
                              0 (- 2 / sqrt 5) (- 1 / sqrt 5) (- 5)
                              0 (- 1 / sqrt 5) (2 / sqrt 5) 10
                              0 0 0 1),
      invert =
        (\<lambda>m. Matrix4_set (- 1) 0 0 0
                          0 (- 2 / sqrt 5) (- 1 / sqrt 5) 0
                          0 (- 1 / sqrt 5) (2 / sqrt 5) (- 5 * sqrt 5)
                          0 0 0 1),
      plane_applyMatrix4 = (\<lambda>pl m. Plane (Vector3 0 (- 2 / sqrt 5) (- 1 / sqrt 5)) (- 5))\<rparr>"

text \<open>
  The sample mirror in use: the renderer has created GPU objects for its render target
  and its material. And the same with a listener of the host's, number 5, registered for
  \<open>dispose\<close> on the material.
\<close>

definition inUseScope :: reflector where
  "inUseScope =
     sampleScope
       \<lparr>renderTarget := (renderTarget sampleScope)
          \<lparr>rt_listeners := registerRenderer (rt_listeners (renderTarget sampleScope))\<rparr>,
        material := (material sampleScope)
          \<lparr>mat_listeners := registerRenderer (mat_listeners (material sampleScope))\<rparr>\<rparr>"

definition listenedScope :: reflector where
  "listenedScope =
     inUseScope
       \<lparr>material := (material inUseScope)
          \<lparr>mat_listeners := addEventListener (mat_listeners (material inUseScope)) (HostListener 5)\<rparr>\<rparr>"

text \<open>Construction options: none given, and an opacity of 0.8.\<close>

definition noOptions :: options where
  "noOptions =
     \<lparr>opt_color = None, opt_textureWidth = None, opt_textureHeight = None,
      opt_clipBias = None, opt_shader = None, opt_opacity = None, opt_transparent = None\<rparr>"

definition opacityOptions :: options where
  "opacityOptions = noOptions\<lparr>opt_opacity := Some 0.8\<rparr>"

section \<open>Theorems\<close>

subsection \<open>Evaluation rules\<close>

lemmas vector_defs = setFromMatrixPosition_def subVectors_def v3_add_def v3_dot_def
  v3_multiplyScalar_def v3_negate_def v3_length_def v3_reflect_def v3_applyMatrix4_def
  v4_dot_def v4_multiplyScalar_def setFromNormalAndCoplanarPoint_def Matrix4_set_def
  extractRotation_def identity_def

lemmas frame_defs = view_def normal_def reflectorWorldPosition_def cameraWorldPosition_def

lemmas renderer_defs = setRenderTarget_def getRenderTarget_def setBlending_def render_def

lemma multiply_lists:
  "multiply [a0, a1, a2, a3, a4, a5, a6, a7, a8, a9, a10, a11, a12, a13, a14, a15]
            [b0, b1, b2, b3, b4, b5, b6, b7, b8, b9, b10, b11, b12, b13, b14, b15] =
   [a0 * b0 + a4 * b1 + a8 * b2 + a12 * b3,
    a1 * b0 + a5 * b1 + a9 * b2 + a13 * b3,
    a2 * b0 + a6 * b1 + a10 * b2 + a14 * b3,
    a3 * b0 + a7 * b1 + a11 * b2 + a15 * b3,
    a0 * b4 + a4 * b5 + a8 * b6 + a12 * b7,
    a1 * b4 + a5 * b5 + a9 * b6 + a13 * b7,
    a2 * b4 + a6 * b5 + a10 * b6 + a14 * b7,
    a3 * b4 + a7 * b5 + a11 * b6 + a15 * b7,
    a0 * b8 + a4 * b9 + a8 * b10 + a12 * b11,
    a1 * b8 + a5 * b9 + a9 * b10 + a13 * b11,
    a2 * b8 + a6 * b9 + a10 * b10 + a14 * b11,
    a3 * b8 + a7 * b9 + a11 * b10 + a15 * b11,
    a0 * b12 + a4 * b13 + a8 * b14 + a12 * b15,
    a1 * b12 + a5 * b13 + a9 * b14 + a13 * b15,
    a2 * b12 + a6 * b13 + a10 * b14 + a14 * b15,
    a3 * b12 + a7 * b13 + a11 * b14 + a15 * b15]"
  by (simp add: multiply_def)

lemma multiply_nth:
  "multiply a b ! 0 = a ! 0 * b ! 0 + a ! 4 * b ! 1 + a ! 8 * b ! 2 + a ! 12 * b ! 3"
  "multiply a b ! Suc 0 = a ! 1 * b ! 0 + a ! 5 * b ! 1 + a ! 9 * b ! 2 + a ! 13 * b ! 3"
  "multiply a b ! 3 = a ! 3 * b ! 0 + a ! 7 * b ! 1 + a ! 11 * b ! 2 + a ! 15 * b ! 3"
  "multiply a b ! 4 = a ! 0 * b ! 4 + a ! 4 * b ! 5 + a ! 8 * b ! 6 + a ! 12 * b ! 7"
  "multiply a b ! 5 = a ! 1 * b ! 4 + a ! 5 * b ! 5 + a ! 9 * b ! 6 + a ! 13 * b ! 7"
  "multiply a b ! 7 = a ! 3 * b ! 4 + a ! 7 * b ! 5 + a ! 11 * b ! 6 + a ! 15 * b ! 7"
  "multiply a b ! 8 = a ! 0 * b ! 8 + a ! 4 * b ! 9 + a ! 8 * b ! 10 + a ! 12 * b ! 11"
  "multiply a b ! 9 = a ! 1 * b ! 8 + a ! 5 * b ! 9 + a ! 9 * b ! 10 + a ! 13 * b ! 11"
  "multiply a b ! 11 = a ! 3 * b ! 8 + a ! 7 * b ! 9 + a ! 11 * b ! 10 + a ! 15 * b ! 11"
  "multiply a b ! 12 = a ! 0 * b ! 12 + a ! 4 * b ! 13 + a ! 8 * b ! 14 + a ! 12 * b ! 15"
  "multiply a b ! 13 = a ! 1 * b ! 12 + a ! 5 * b ! 13 + a ! 9 * b ! 14 + a ! 13 * b ! 15"
  "multiply a b ! 15 = a ! 3 * b ! 12 + a ! 7 * b ! 13 + a ! 11 * b ! 14 + a ! 15 * b ! 15"
  by (simp_all add: multiply_def Let_def)

subsection \<open>The default construction\<close>

lemma constructor_default: "Reflector_constructor unusedCamera 1 noOptions = Inr sampleScope"
  by (simp add: Reflector_constructor_def noOptions_def ReflectorShader_def set_uniform_def
        js_or_def sampleScope_def Let_def fun_eq_iff)

subsection \<open>Where the sample cameras stand\<close>

lemma sample_in_front: "v3_dot (view sampleScope sampleCamera) (normal sampleScope) = - 5"
  by (simp add: frame_defs sampleScope_def sampleCamera_def vector_defs)

lemma biased_in_front: "v3_dot (view biasedScope sampleCamera) (normal biasedScope) = - 5"
  by (simp add: frame_defs biasedScope_def sampleScope_def sampleCamera_def vector_defs)

lemma onPlane_on_plane: "v3_dot (view sampleScope onPlaneCamera) (normal sampleScope) = 0"
  by (simp add: frame_defs sampleScope_def onPlaneCamera_def sampleCamera_def vector_defs)

lemma behind_behind: "v3_dot (view sampleScope behindCamera) (normal sampleScope) = 5"
  by (simp add: frame_defs sampleScope_def behindCamera_def sampleCamera_def vector_defs)

subsection \<open>What a frame leaves behind\<close>

text \<open>The guard fires, or the frame runs through; in the second case each field of the
  result is given in closed form.\<close>

lemma viewSpaceClipPlane_scope:
  "viewSpaceClipPlane L (scope\<lparr>virtualCamera := a, textureMatrix := b\<rparr>) vc =
   viewSpaceClipPlane L scope vc"
  by (simp add: viewSpaceClipPlane_def frame_defs)

lemma run_skip:
  "0 < v3_dot (view scope cam) (normal scope) \<Longrightarrow> onBeforeRender L scope r sc cam = (scope, r)"
  by (simp add: onBeforeRender_def)

lemma run_virtualCamera:
  "\<not> 0 < v3_dot (view scope cam) (normal scope) \<Longrightarrow>
   virtualCamera (fst (onBeforeRender L scope r sc cam)) =
     (deriveVirtualCamera L scope cam)
       \<lparr>projectionMatrix :=
          obliqueClip (projectionMatrix cam)
            (viewSpaceClipPlane L scope (deriveVirtualCamera L scope cam)) (clipBias scope)\<rparr>"
  by (simp add: onBeforeRender_def Let_def viewSpaceClipPlane_scope)
     (simp add: deriveVirtualCamera_def Let_def)

lemma run_textureMatrix:
  "\<not> 0 < v3_dot (view scope cam) (normal scope) \<Longrightarrow>
   textureMatrix (fst (onBeforeRender L scope r sc cam)) =
     multiply (multiply (multiply biasMatrix (projectionMatrix cam))
       (matrixWorldInverse (deriveVirtualCamera L scope cam))) (scope_matrixWorld scope)"
  by (simp add: onBeforeRender_def Let_def updateTextureMatrix_def)
     (simp add: deriveVirtualCamera_def Let_def)

lemma run_scope:
  "\<not> 0 < v3_dot (view scope cam) (normal scope) \<Longrightarrow>
   scope_visible (fst (onBeforeRender L scope r sc cam)) = True \<and>
   scope_matrixWorld (fst (onBeforeRender L scope r sc cam)) = scope_matrixWorld scope \<and>
   clipBias (fst (onBeforeRender L scope r sc cam)) = clipBias scope \<and>
   renderTarget (fst (onBeforeRender L scope r sc cam)) = renderTarget scope \<and>
   material (fst (onBeforeRender L scope r sc cam)) = material scope"
  by (simp add: onBeforeRender_def Let_def)

lemma run_rendered:
  "\<not> 0 < v3_dot (view scope cam) (normal scope) \<Longrightarrow>
   rendered (snd (onBeforeRender L scope r sc cam)) =
     rendered r @
     [\<lparr>rc_scene = sc, rc_camera = virtualCamera (fst (onBeforeRender L scope r sc cam)),
       rc_target = Some (rt_id (renderTarget scope)),
       rc_xr_enabled = xr_enabled r, rc_shadowMap_autoUpdate = shadowMap_autoUpdate r,
       rc_blending = 0, rc_scope_visible = scope_visible scope\<rparr>,
      \<lparr>rc_scene = sc, rc_camera = cam, rc_target = None,
       rc_xr_enabled = xr_enabled r, rc_shadowMap_autoUpdate = shadowMap_autoUpdate r,
       rc_blending = 0, rc_scope_visible = False\<rparr>]"
  by (simp add: onBeforeRender_def Let_def renderer_defs)

lemma run_renderer:
  "\<not> 0 < v3_dot (view scope cam) (normal scope) \<Longrightarrow>
   currentRenderTarget (snd (onBeforeRender L scope r sc cam)) = None \<and>
   xr_enabled (snd (onBeforeRender L scope r sc cam)) = xr_enabled r \<and>
   shadowMap_autoUpdate (snd (onBeforeRender L scope r sc cam)) = shadowMap_autoUpdate r \<and>
   state_blending (snd (onBeforeRender L scope r sc cam)) = 0"
  by (simp add: onBeforeRender_def Let_def renderer_defs)

subsection \<open>The four element writes\<close>

lemma obliqueClip_other:
  "i \<noteq> 2 \<Longrightarrow> i \<noteq> 6 \<Longrightarrow> i \<noteq> 10 \<Longrightarrow> i \<noteq> 14 \<Longrightarrow> obliqueClip pm cp b ! i = pm ! i"
  by (simp add: obliqueClip_def Let_def)

lemma obliqueClip_length: "length (obliqueClip pm cp b) = length pm"
  by (simp add: obliqueClip_def Let_def)

lemma obliqueClip_spec:
  "obliqueClip pm cp b =
     pm[2 := v4x (spec_clip_row cp pm b), 6 := v4y (spec_clip_row cp pm b),
        10 := v4z (spec_clip_row cp pm b), 14 := v4w (spec_clip_row cp pm b)]"
  by (simp add: obliqueClip_def clip_q_def spec_clip_row_def spec_scaled_plane_def spec_q_def
      v4_dot_def v4_multiplyScalar_def Let_def mult.commute)

text \<open>Rows one, two and four of a matrix product depend on rows one, two and four of
  its left factor only, and those rows of \<open>biasMatrix * p\<close> on those rows of \<open>p\<close>.\<close>

lemma other_rows:
  "i < 16 \<Longrightarrow> i \<notin> {2, 6, 10, 14} \<Longrightarrow> i \<in> {0, 1, 3, 4, 5, 7, 8, 9, 11, 12, 13, 15::nat}"
  by simp arith

lemma multiply_rows:
  assumes "\<forall>j<16. j \<notin> {2, 6, 10, 14} \<longrightarrow> a ! j = a' ! j"
    and "i < 16" and "i \<notin> {2, 6, 10, 14}"
  shows "multiply a b ! i = multiply a' b ! i"
  using other_rows [OF assms(2,3)] assms(1) by (auto simp add: multiply_nth)

lemma bias_rows:
  assumes "\<forall>j. j \<notin> {2, 6, 10, 14} \<longrightarrow> p ! j = p' ! j"
    and "i < 16" and "i \<notin> {2, 6, 10, 14}"
  shows "multiply biasMatrix p ! i = multiply biasMatrix p' ! i"
  using other_rows [OF assms(2,3)] assms(1)
  by (auto simp add: multiply_nth biasMatrix_def Matrix4_set_def)

lemma texture_rows:
  assumes "i < 16" and "i \<notin> {2, 6, 10, 14}"
  shows "multiply (multiply (multiply biasMatrix pm) v) w ! i =
         multiply (multiply (multiply biasMatrix (obliqueClip pm cp b)) v) w ! i"
proof -
  have 0: "\<forall>j. j \<notin> {2, 6, 10, 14} \<longrightarrow> pm ! j = obliqueClip pm cp b ! j"
    by (simp add: obliqueClip_other)
  have 1: "\<forall>j<16. j \<notin> {2, 6, 10, 14} \<longrightarrow>
      multiply biasMatrix pm ! j = multiply biasMatrix (obliqueClip pm cp b) ! j"
    using bias_rows [OF 0] by blast
  have 2: "\<forall>j<16. j \<notin> {2, 6, 10, 14} \<longrightarrow>
      multiply (multiply biasMatrix pm) v ! j =
      multiply (multiply biasMatrix (obliqueClip pm cp b)) v ! j"
    using multiply_rows [OF 1] by blast
  show ?thesis by (rule multiply_rows [OF 2 assms])
qed

subsection \<open>The sample frame, evaluated\<close>

lemma sample_projection:
  "projectionMatrix (virtualCamera (fst (onBeforeRender sampleThree sampleScope sampleRenderer 0 sampleCamera))) =
     [1, 0, 0, 0,  0, 1, 0, 0,  0, 0, - 8 / 3, - 1,  0, 0, - 55 / 3, 0]"
  by (simp add: run_virtualCamera sample_in_front)
     (simp add: deriveVirtualCamera_def viewSpaceClipPlane_def obliqueClip_def clip_q_def
        sampleThree_def sampleCamera_def sampleScope_def vector_defs Let_def)

lemma sample_matrixWorldInverse:
  "matrixWorldInverse (virtualCamera (fst (onBeforeRender sampleThree sampleScope sampleRenderer 0 sampleCamera))) =
     [- 1, 0, 0, 0,  0, 1, 0, 0,  0, 0, - 1, 0,  0, 0, - 5, 1]"
  by (simp add: run_virtualCamera sample_in_front)
     (simp add: deriveVirtualCamera_def sampleThree_def Matrix4_set_def Let_def)

lemma sample_textureMatrix:
  "textureMatrix (fst (onBeforeRender sampleThree sampleScope sampleRenderer 0 sampleCamera)) =
     [- 1 / 2, 0, 0, 0,  0, 1 / 2, 0, 0,  1 / 2, 1 / 2, 11 / 10, 1,  5 / 2, 5 / 2, 22 / 5, 5]"
  by (simp add: run_textureMatrix sample_in_front)
     (simp add: deriveVirtualCamera_def multiply_lists biasMatrix_def sampleThree_def
        sampleCamera_def sampleScope_def Matrix4_set_def identity_def Let_def)

lemma sample_offscreen_call:
  "rendered (snd (onBeforeRender sampleThree sampleScope sampleRenderer 0 sampleCamera)) ! 0 =
     \<lparr>rc_scene = 0, rc_camera = virtualCamera (fst (onBeforeRender sampleThree sampleScope sampleRenderer 0 sampleCamera)),
      rc_target = Some 1, rc_xr_enabled = True, rc_shadowMap_autoUpdate = True,
      rc_blending = 0, rc_scope_visible = True\<rparr>"
  by (simp add: run_rendered sample_in_front) (simp add: sampleRenderer_def sampleScope_def)

lemma sample_host_call:
  "rendered (snd (onBeforeRender sampleThree sampleScope sampleRenderer 0 sampleCamera)) ! 1 =
     \<lparr>rc_scene = 0, rc_camera = sampleCamera,
      rc_target = None, rc_xr_enabled = True, rc_shadowMap_autoUpdate = True,
      rc_blending = 0, rc_scope_visible = False\<rparr>"
  by (simp add: run_rendered sample_in_front) (simp add: sampleRenderer_def sampleScope_def)

lemma scenario_camera_up:
  "v3_applyMatrix4 (Vector3 0 1 0) (extractRotation (matrixWorld scenarioCamera)) =
     Vector3 0 (2 / sqrt 5) (- 1 / sqrt 5)"
  by (simp add: scenarioCamera_def sampleCamera_def vector_defs)

subsection \<open>C1: the back-face guard\<close>

text \<open>
  C1, as the specification states it, fails where the dot product is exactly zero. With
  the camera on the mirror plane, at \<open>(5, 0, 0)\<close> before a mirror at the origin facing
  \<open>+Z\<close>, the vector from the camera to the surface has dot product 0 with the normal,
  which is non-negative; the hook does not return early: it issues both of its render
  calls.
\<close>

theorem onBeforeRender_runs_on_plane:
  "0 \<le> v3_dot (view sampleScope onPlaneCamera) (normal sampleScope) \<and>
   onBeforeRender onPlaneThree sampleScope sampleRenderer 0 onPlaneCamera \<noteq> (sampleScope, sampleRenderer) \<and>
   rendered sampleRenderer = [] \<and>
   length (rendered (snd (onBeforeRender onPlaneThree sampleScope sampleRenderer 0 onPlaneCamera))) = 2"
proof -
  have run: "\<not> 0 < v3_dot (view sampleScope onPlaneCamera) (normal sampleScope)"
    by (simp add: onPlane_on_plane)
  have len: "length (rendered (snd (onBeforeRender onPlaneThree sampleScope sampleRenderer 0 onPlaneCamera))) = 2"
    by (simp add: run_rendered [OF run] sampleRenderer_def)
  have emp: "rendered sampleRenderer = []"
    by (simp add: sampleRenderer_def)
  from len emp have "onBeforeRender onPlaneThree sampleScope sampleRenderer 0 onPlaneCamera \<noteq> (sampleScope, sampleRenderer)"
    by auto
  with len emp show ?thesis by (simp add: onPlane_on_plane)
qed

text \<open>
  C1, amended. For every frame in which the vector from the real camera to the surface
  has a strictly positive dot product with the surface's world normal, \<open>onBeforeRender\<close>
  skips the entire reflection computation: the reflector (virtual camera, texture
  matrix, visibility) and the renderer (state and render log, hence the buffer contents)
  are returned as they were. For every frame in which that dot product is negative or
  zero, the reflection computation executes: the virtual camera is moved to the mirrored
  position, the texture matrix is rebuilt from this frame's matrices, and two render
  calls are issued, the first into the reflector's render target with the virtual
  camera.
\<close>

theorem onBeforeRender_guard:
  "(0 < v3_dot (view scope cam) (normal scope) \<longrightarrow> onBeforeRender L scope r sc cam = (scope, r)) \<and>
   (v3_dot (view scope cam) (normal scope) \<le> 0 \<longrightarrow>
      position (virtualCamera (fst (onBeforeRender L scope r sc cam))) =
        v3_add (v3_negate (v3_reflect (view scope cam) (normal scope)))
          (reflectorWorldPosition scope) \<and>
      textureMatrix (fst (onBeforeRender L scope r sc cam)) =
        multiply (multiply (multiply biasMatrix (projectionMatrix cam))
          (matrixWorldInverse (virtualCamera (fst (onBeforeRender L scope r sc cam)))))
          (scope_matrixWorld scope) \<and>
      length (rendered (snd (onBeforeRender L scope r sc cam))) = length (rendered r) + 2 \<and>
      rc_target (rendered (snd (onBeforeRender L scope r sc cam)) ! length (rendered r)) =
        Some (rt_id (renderTarget scope)) \<and>
      rc_camera (rendered (snd (onBeforeRender L scope r sc cam)) ! length (rendered r)) =
        virtualCamera (fst (onBeforeRender L scope r sc cam)))"
proof (intro conjI impI)
  assume "0 < v3_dot (view scope cam) (normal scope)"
  then show "onBeforeRender L scope r sc cam = (scope, r)" by (rule run_skip)
next
  assume "v3_dot (view scope cam) (normal scope) \<le> 0"
  then have run: "\<not> 0 < v3_dot (view scope cam) (normal scope)" by simp
  show "position (virtualCamera (fst (onBeforeRender L scope r sc cam))) =
        v3_add (v3_negate (v3_reflect (view scope cam) (normal scope)))
          (reflectorWorldPosition scope)"
    by (simp add: run_virtualCamera [OF run]) (simp add: deriveVirtualCamera_def Let_def)
  show "textureMatrix (fst (onBeforeRender L scope r sc cam)) =
        multiply (multiply (multiply biasMatrix (projectionMatrix cam))
          (matrixWorldInverse (virtualCamera (fst (onBeforeRender L scope r sc cam)))))
          (scope_matrixWorld scope)"
    by (simp add: run_textureMatrix [OF run] run_virtualCamera [OF run])
  show "length (rendered (snd (onBeforeRender L scope r sc cam))) = length (rendered r) + 2"
    by (simp add: run_rendered [OF run])
  show "rc_target (rendered (snd (onBeforeRender L scope r sc cam)) ! length (rendered r)) =
        Some (rt_id (renderTarget scope))"
    by (simp add: run_rendered [OF run])
  show "rc_camera (rendered (snd (onBeforeRender L scope r sc cam)) ! length (rendered r)) =
        virtualCamera (fst (onBeforeRender L scope r sc cam))"
    by (simp add: run_rendered [OF run])
qed

text \<open>Both cases occur: the camera behind the mirror is skipped, the camera in front
  of it is mirrored to \<open>(0, 0, -5)\<close> and rendered into render target 1.\<close>

theorem onBeforeRender_guard_witness:
  "0 < v3_dot (view sampleScope behindCamera) (normal sampleScope) \<and>
   onBeforeRender sampleThree sampleScope sampleRenderer 0 behindCamera = (sampleScope, sampleRenderer) \<and>
   v3_dot (view sampleScope sampleCamera) (normal sampleScope) \<le> 0 \<and>
   position (virtualCamera (fst (onBeforeRender sampleThree sampleScope sampleRenderer 0 sampleCamera))) = Vector3 0 0 (- 5) \<and>
   length (rendered (snd (onBeforeRender sampleThree sampleScope sampleRenderer 0 sampleCamera))) = 2 \<and>
   rc_target (rendered (snd (onBeforeRender sampleThree sampleScope sampleRenderer 0 sampleCamera)) ! 0) = Some 1"
proof -
  have b: "0 < v3_dot (view sampleScope behindCamera) (normal sampleScope)"
    by (simp add: behind_behind)
  have f: "v3_dot (view sampleScope sampleCamera) (normal sampleScope) \<le> 0"
    by (simp add: sample_in_front)
  have p: "v3_add (v3_negate (v3_reflect (view sampleScope sampleCamera) (normal sampleScope)))
             (reflectorWorldPosition sampleScope) = Vector3 0 0 (- 5)"
    by (simp add: frame_defs sampleScope_def sampleCamera_def vector_defs)
  have e: "length (rendered sampleRenderer) = 0" "rt_id (renderTarget sampleScope) = 1"
    by (simp_all add: sampleRenderer_def sampleScope_def)
  from onBeforeRender_guard [of sampleScope behindCamera sampleThree sampleRenderer 0] b
  have skip: "onBeforeRender sampleThree sampleScope sampleRenderer 0 behindCamera = (sampleScope, sampleRenderer)"
    by simp
  from onBeforeRender_guard [of sampleScope sampleCamera sampleThree sampleRenderer 0] f p e
  have run: "position (virtualCamera (fst (onBeforeRender sampleThree sampleScope sampleRenderer 0 sampleCamera))) = Vector3 0 0 (- 5) \<and>
      length (rendered (snd (onBeforeRender sampleThree sampleScope sampleRenderer 0 sampleCamera))) = 2 \<and>
      rc_target (rendered (snd (onBeforeRender sampleThree sampleScope sampleRenderer 0 sampleCamera)) ! 0) = Some 1"
    by simp
  from b f skip run show ?thesis by simp
qed

subsection \<open>C2: only the third row of the projection matrix changes\<close>

text \<open>
  C2. For every frame that runs and every \<open>clipBias\<close>, after the oblique clip adjustment
  the virtual camera's projection matrix equals the real camera's projection matrix with
  exactly the third row (elements 2, 6, 10, 14) replaced by the clip-plane row; the
  other twelve elements are unchanged.
\<close>

theorem projectionMatrix_third_row_only:
  assumes "\<not> 0 < v3_dot (view scope cam) (normal scope)"
    and "length (projectionMatrix cam) = 16"
  shows "length (projectionMatrix (virtualCamera (fst (onBeforeRender L scope r sc cam)))) = 16 \<and>
    (\<forall>i < 16. i \<notin> {2, 6, 10, 14} \<longrightarrow>
       projectionMatrix (virtualCamera (fst (onBeforeRender L scope r sc cam))) ! i = projectionMatrix cam ! i) \<and>
    (let row = spec_clip_row (viewSpaceClipPlane L scope (deriveVirtualCamera L scope cam))
                 (projectionMatrix cam) (clipBias scope);
         pm = projectionMatrix (virtualCamera (fst (onBeforeRender L scope r sc cam)))
     in pm ! 2 = v4x row \<and> pm ! 6 = v4y row \<and> pm ! 10 = v4z row \<and> pm ! 14 = v4w row)"
  using assms
  by (simp add: run_virtualCamera obliqueClip_other obliqueClip_length)
     (simp add: obliqueClip_spec Let_def)

text \<open>In the sample frame elements 10 and 14 change from \<open>- 6 / 5\<close> and \<open>- 11 / 5\<close>
  to \<open>- 8 / 3\<close> and \<open>- 55 / 3\<close>, and with a clip bias of \<open>1 / 4\<close> to \<open>- 35 / 12\<close> and
  \<open>- 55 / 3\<close>; elements 0 and 11, for instance, stay 1 and -1.\<close>

theorem projectionMatrix_third_row_only_witness:
  "\<not> 0 < v3_dot (view sampleScope sampleCamera) (normal sampleScope) \<and>
   \<not> 0 < v3_dot (view biasedScope sampleCamera) (normal biasedScope) \<and>
   length (projectionMatrix sampleCamera) = 16 \<and>
   projectionMatrix sampleCamera =
     [1, 0, 0, 0,  0, 1, 0, 0,  0, 0, - 6 / 5, - 1,  0, 0, - 11 / 5, 0] \<and>
   length (projectionMatrix (virtualCamera (fst (onBeforeRender sampleThree sampleScope sampleRenderer 0 sampleCamera)))) = 16 \<and>
   projectionMatrix (virtualCamera (fst (onBeforeRender sampleThree sampleScope sampleRenderer 0 sampleCamera))) ! 0 = 1 \<and>
   projectionMatrix (virtualCamera (fst (onBeforeRender sampleThree sampleScope sampleRenderer 0 sampleCamera))) ! 11 = - 1 \<and>
   projectionMatrix (virtualCamera (fst (onBeforeRender sampleThree sampleScope sampleRenderer 0 sampleCamera))) ! 10 = - 8 / 3 \<and>
   projectionMatrix (virtualCamera (fst (onBeforeRender sampleThree sampleScope sampleRenderer 0 sampleCamera))) ! 14 = - 55 / 3 \<and>
   projectionMatrix (virtualCamera (fst (onBeforeRender sampleThree biasedScope sampleRenderer 0 sampleCamera))) ! 11 = - 1 \<and>
   projectionMatrix (virtualCamera (fst (onBeforeRender sampleThree biasedScope sampleRenderer 0 sampleCamera))) ! 10 = - 35 / 12 \<and>
   projectionMatrix (virtualCamera (fst (onBeforeRender sampleThree biasedScope sampleRenderer 0 sampleCamera))) ! 14 = - 55 / 3"
proof -
  have f: "\<not> 0 < v3_dot (view sampleScope sampleCamera) (normal sampleScope)"
    by (simp add: sample_in_front)
  have g: "\<not> 0 < v3_dot (view biasedScope sampleCamera) (normal biasedScope)"
    by (simp add: biased_in_front)
  have l: "length (projectionMatrix sampleCamera) = 16"
    by (simp add: sampleCamera_def Matrix4_set_def)
  have p: "projectionMatrix sampleCamera =
      [1, 0, 0, 0,  0, 1, 0, 0,  0, 0, - 6 / 5, - 1,  0, 0, - 11 / 5, 0]"
    by (simp add: sampleCamera_def Matrix4_set_def)
  have r: "spec_clip_row
      (viewSpaceClipPlane sampleThree sampleScope (deriveVirtualCamera sampleThree sampleScope sampleCamera))
      (projectionMatrix sampleCamera) (clipBias sampleScope) = Vector4 0 0 (- 8 / 3) (- 55 / 3)"
    by (simp add: spec_clip_row_def spec_scaled_plane_def spec_q_def viewSpaceClipPlane_def
          deriveVirtualCamera_def sampleThree_def p sampleScope_def Let_def)
  have rb: "spec_clip_row
      (viewSpaceClipPlane sampleThree biasedScope (deriveVirtualCamera sampleThree biasedScope sampleCamera))
      (projectionMatrix sampleCamera) (clipBias biasedScope) = Vector4 0 0 (- 35 / 12) (- 55 / 3)"
    by (simp add: spec_clip_row_def spec_scaled_plane_def spec_q_def viewSpaceClipPlane_def
          deriveVirtualCamera_def sampleThree_def p biasedScope_def sampleScope_def Let_def)
  note th = projectionMatrix_third_row_only [OF f l, of sampleThree sampleRenderer 0]
  note tb = projectionMatrix_third_row_only [OF g l, of sampleThree sampleRenderer 0]
  from th have len: "length (projectionMatrix (virtualCamera (fst (onBeforeRender sampleThree sampleScope sampleRenderer 0 sampleCamera)))) = 16"
    by simp
  from th have others: "\<forall>i<16. i \<notin> {2, 6, 10, 14} \<longrightarrow>
      projectionMatrix (virtualCamera (fst (onBeforeRender sampleThree sampleScope sampleRenderer 0 sampleCamera))) ! i = projectionMatrix sampleCamera ! i"
    by simp
  from others [rule_format, of 0] others [rule_format, of 11]
  have kept: "projectionMatrix (virtualCamera (fst (onBeforeRender sampleThree sampleScope sampleRenderer 0 sampleCamera))) ! 0 = 1"
    "projectionMatrix (virtualCamera (fst (onBeforeRender sampleThree sampleScope sampleRenderer 0 sampleCamera))) ! 11 = - 1"
    by (simp_all add: p)
  from th r have row: "projectionMatrix (virtualCamera (fst (onBeforeRender sampleThree sampleScope sampleRenderer 0 sampleCamera))) ! 10 = - 8 / 3"
    "projectionMatrix (virtualCamera (fst (onBeforeRender sampleThree sampleScope sampleRenderer 0 sampleCamera))) ! 14 = - 55 / 3"
    by (simp_all add: Let_def)
  from tb have others_b: "\<forall>i<16. i \<notin> {2, 6, 10, 14} \<longrightarrow>
      projectionMatrix (virtualCamera (fst (onBeforeRender sampleThree biasedScope sampleRenderer 0 sampleCamera))) ! i = projectionMatrix sampleCamera ! i"
    by simp
  from others_b [rule_format, of 11]
  have kept_b: "projectionMatrix (virtualCamera (fst (onBeforeRender sampleThree biasedScope sampleRenderer 0 sampleCamera))) ! 11 = - 1"
    by (simp add: p)
  from tb rb have row_b: "projectionMatrix (virtualCamera (fst (onBeforeRender sampleThree biasedScope sampleRenderer 0 sampleCamera))) ! 10 = - 35 / 12"
    "projectionMatrix (virtualCamera (fst (onBeforeRender sampleThree biasedScope sampleRenderer 0 sampleCamera))) ! 14 = - 55 / 3"
    by (simp_all add: Let_def)
  from f g l p len kept row kept_b row_b show ?thesis by simp
qed

subsection \<open>C3: the oblique clip formulas\<close>

text \<open>
  C3. For every frame that is not skipped, the oblique clip adjustment computes \<open>q\<close> as
  \<open>q.x = (sign(normal.x) + m[8]) / m[0]\<close>, \<open>q.y = (sign(normal.y) + m[9]) / m[5]\<close>,
  \<open>q.z = -1\<close>, \<open>q.w = (1 + m[10]) / m[14]\<close> from the view-space clip plane and the
  prior projection-matrix elements, scales the view-space plane by \<open>2 / dot(plane, q)\<close>,
  and writes the scaled plane's \<open>(x, y, z + 1 - clipBias, w)\<close> into projection-matrix
  elements 2, 6, 10, 14.
\<close>

theorem obliqueClip_follows_spec:
  assumes "\<not> 0 < v3_dot (view scope cam) (normal scope)"
  shows "(let m = projectionMatrix cam;
              pl = viewSpaceClipPlane L scope (deriveVirtualCamera L scope cam);
              p = spec_scaled_plane pl m
          in clip_q m pl = spec_q pl m \<and>
             projectionMatrix (virtualCamera (fst (onBeforeRender L scope r sc cam))) =
               m[2 := v4x p, 6 := v4y p, 10 := v4z p + 1 - clipBias scope, 14 := v4w p])"
  using assms
  by (simp add: run_virtualCamera obliqueClip_spec)
     (simp add: spec_clip_row_def clip_q_def spec_q_def Let_def)

theorem obliqueClip_follows_spec_witness:
  "\<not> 0 < v3_dot (view sampleScope sampleCamera) (normal sampleScope) \<and>
   spec_q (Vector4 0 0 (- 1) (- 5)) (projectionMatrix sampleCamera) = Vector4 0 0 (- 1) (1 / 11) \<and>
   spec_scaled_plane (Vector4 0 0 (- 1) (- 5)) (projectionMatrix sampleCamera) =
     Vector4 0 0 (- 11 / 3) (- 55 / 3) \<and>
   projectionMatrix (virtualCamera (fst (onBeforeRender sampleThree sampleScope sampleRenderer 0 sampleCamera))) =
     [1, 0, 0, 0,  0, 1, 0, 0,  0, 0, - 8 / 3, - 1,  0, 0, - 55 / 3, 0]"
proof -
  have f: "\<not> 0 < v3_dot (view sampleScope sampleCamera) (normal sampleScope)"
    by (simp add: sample_in_front)
  have pl: "viewSpaceClipPlane sampleThree sampleScope
      (deriveVirtualCamera sampleThree sampleScope sampleCamera) = Vector4 0 0 (- 1) (- 5)"
    by (simp add: viewSpaceClipPlane_def sampleThree_def Let_def)
  have p: "projectionMatrix sampleCamera =
      [1, 0, 0, 0,  0, 1, 0, 0,  0, 0, - 6 / 5, - 1,  0, 0, - 11 / 5, 0]"
    by (simp add: sampleCamera_def Matrix4_set_def)
  have q: "spec_q (Vector4 0 0 (- 1) (- 5)) (projectionMatrix sampleCamera) =
      Vector4 0 0 (- 1) (1 / 11)"
    by (simp add: spec_q_def p)
  have s: "spec_scaled_plane (Vector4 0 0 (- 1) (- 5)) (projectionMatrix sampleCamera) =
      Vector4 0 0 (- 11 / 3) (- 55 / 3)"
    by (simp add: spec_scaled_plane_def q Let_def)
  have c: "clipBias sampleScope = 0"
    by (simp add: sampleScope_def)
  from obliqueClip_follows_spec [OF f, of sampleThree sampleRenderer 0]
  have "projectionMatrix (virtualCamera (fst (onBeforeRender sampleThree sampleScope sampleRenderer 0 sampleCamera))) =
      [1, 0, 0, 0,  0, 1, 0, 0,  0, 0, - 8 / 3, - 1,  0, 0, - 55 / 3, 0]"
    by (simp add: Let_def pl s c) (simp add: p)
  with f q s show ?thesis by simp
qed

subsection \<open>C4: the texture matrix\<close>

text \<open>
  C4, as the specification states it, fails: the projection matrix in the texture matrix
  is not the one the offscreen render is issued with. In the sample frame the texture
  matrix differs from \<open>bias * P * V * W\<close> taken with the matrices \<open>P\<close> and \<open>V\<close> of the
  camera handed to the offscreen render (elements 10 and 14 are \<open>11 / 10\<close> and
  \<open>22 / 5\<close> instead of \<open>11 / 6\<close> and \<open>0\<close>).
\<close>

theorem textureMatrix_not_from_render_projection:
  "\<not> 0 < v3_dot (view sampleScope sampleCamera) (normal sampleScope) \<and>
   textureMatrix (fst (onBeforeRender sampleThree sampleScope sampleRenderer 0 sampleCamera)) \<noteq>
     multiply (multiply (multiply biasMatrix
       (projectionMatrix (rc_camera (rendered (snd (onBeforeRender sampleThree sampleScope sampleRenderer 0 sampleCamera)) ! 0))))
       (matrixWorldInverse (rc_camera (rendered (snd (onBeforeRender sampleThree sampleScope sampleRenderer 0 sampleCamera)) ! 0))))
       (scope_matrixWorld sampleScope)"
  by (simp add: sample_in_front sample_textureMatrix sample_offscreen_call sample_projection
        sample_matrixWorldInverse)
     (simp add: multiply_lists biasMatrix_def sampleScope_def identity_def Matrix4_set_def)

text \<open>
  C4, amended. For every frame that is not skipped, the texture matrix is the product
  \<open>bias * P0 * V * W\<close>: the bias matrix, which maps clip space \<open>[-1, 1]\<close> to \<open>[0, 1]\<close>;
  \<open>P0\<close>, the real camera's projection matrix, which is the virtual camera's projection
  matrix before the oblique clip adjustment; \<open>V\<close>, the inverse world matrix of the
  virtual camera with which the offscreen render into the reflector's render target is
  issued; and \<open>W\<close>, the surface's world matrix. The projection matrix of that render
  differs from \<open>P0\<close> in its third row only (elements 2, 6, 10, 14), and the texture
  matrix agrees with \<open>bias * P * V * W\<close> for the render's own \<open>P\<close> in every element
  outside its third row.
\<close>

theorem textureMatrix_uses_unadjusted_projection:
  assumes "\<not> 0 < v3_dot (view scope cam) (normal scope)"
  shows "textureMatrix (fst (onBeforeRender L scope r sc cam)) =
      multiply (multiply (multiply biasMatrix (projectionMatrix cam))
        (matrixWorldInverse (rc_camera (rendered (snd (onBeforeRender L scope r sc cam)) ! length (rendered r)))))
        (scope_matrixWorld scope) \<and>
    rc_target (rendered (snd (onBeforeRender L scope r sc cam)) ! length (rendered r)) = Some (rt_id (renderTarget scope)) \<and>
    (\<forall>i. i \<notin> {2, 6, 10, 14} \<longrightarrow>
       projectionMatrix (rc_camera (rendered (snd (onBeforeRender L scope r sc cam)) ! length (rendered r))) ! i = projectionMatrix cam ! i) \<and>
    (\<forall>i<16. i \<notin> {2, 6, 10, 14} \<longrightarrow>
       textureMatrix (fst (onBeforeRender L scope r sc cam)) ! i =
       multiply (multiply (multiply biasMatrix (projectionMatrix (rc_camera (rendered (snd (onBeforeRender L scope r sc cam)) ! length (rendered r)))))
         (matrixWorldInverse (rc_camera (rendered (snd (onBeforeRender L scope r sc cam)) ! length (rendered r)))))
         (scope_matrixWorld scope) ! i) \<and>
    v3_applyMatrix4 (Vector3 (- 1) (- 1) (- 1)) biasMatrix = Vector3 0 0 0 \<and>
    v3_applyMatrix4 (Vector3 1 1 1) biasMatrix = Vector3 1 1 1"
proof (intro conjI allI impI)
  note run = assms
  have off: "rc_camera (rendered (snd (onBeforeRender L scope r sc cam)) ! length (rendered r)) = virtualCamera (fst (onBeforeRender L scope r sc cam))"
    by (simp add: run_rendered [OF run])
  show "textureMatrix (fst (onBeforeRender L scope r sc cam)) =
      multiply (multiply (multiply biasMatrix (projectionMatrix cam))
        (matrixWorldInverse (rc_camera (rendered (snd (onBeforeRender L scope r sc cam)) ! length (rendered r)))))
        (scope_matrixWorld scope)"
    by (simp add: off run_textureMatrix [OF run] run_virtualCamera [OF run])
  show "rc_target (rendered (snd (onBeforeRender L scope r sc cam)) ! length (rendered r)) = Some (rt_id (renderTarget scope))"
    by (simp add: run_rendered [OF run])
  show "projectionMatrix (rc_camera (rendered (snd (onBeforeRender L scope r sc cam)) ! length (rendered r))) ! i = projectionMatrix cam ! i"
    if "i \<notin> {2, 6, 10, 14}" for i
    using that by (simp add: off run_virtualCamera [OF run] obliqueClip_other)
  show "textureMatrix (fst (onBeforeRender L scope r sc cam)) ! i =
       multiply (multiply (multiply biasMatrix (projectionMatrix (rc_camera (rendered (snd (onBeforeRender L scope r sc cam)) ! length (rendered r)))))
         (matrixWorldInverse (rc_camera (rendered (snd (onBeforeRender L scope r sc cam)) ! length (rendered r)))))
         (scope_matrixWorld scope) ! i"
    if "i < 16" "i \<notin> {2, 6, 10, 14}" for i
    using texture_rows [OF that]
    by (simp add: off run_textureMatrix [OF run] run_virtualCamera [OF run])
  show "v3_applyMatrix4 (Vector3 (- 1) (- 1) (- 1)) biasMatrix = Vector3 0 0 0"
    by (simp add: v3_applyMatrix4_def biasMatrix_def Matrix4_set_def)
  show "v3_applyMatrix4 (Vector3 1 1 1) biasMatrix = Vector3 1 1 1"
    by (simp add: v3_applyMatrix4_def biasMatrix_def Matrix4_set_def)
qed

theorem textureMatrix_uses_unadjusted_projection_witness:
  "\<not> 0 < v3_dot (view sampleScope sampleCamera) (normal sampleScope) \<and>
   textureMatrix (fst (onBeforeRender sampleThree sampleScope sampleRenderer 0 sampleCamera)) =
      multiply (multiply (multiply biasMatrix (projectionMatrix sampleCamera))
        (matrixWorldInverse (rc_camera (rendered (snd (onBeforeRender sampleThree sampleScope sampleRenderer 0 sampleCamera)) ! 0))))
        (scope_matrixWorld sampleScope) \<and>
   textureMatrix (fst (onBeforeRender sampleThree sampleScope sampleRenderer 0 sampleCamera)) =
     [- 1 / 2, 0, 0, 0,  0, 1 / 2, 0, 0,  1 / 2, 1 / 2, 11 / 10, 1,  5 / 2, 5 / 2, 22 / 5, 5] \<and>
   rc_target (rendered (snd (onBeforeRender sampleThree sampleScope sampleRenderer 0 sampleCamera)) ! 0) = Some 1 \<and>
   projectionMatrix (rc_camera (rendered (snd (onBeforeRender sampleThree sampleScope sampleRenderer 0 sampleCamera)) ! 0)) ! 11 = projectionMatrix sampleCamera ! 11"
proof -
  have f: "\<not> 0 < v3_dot (view sampleScope sampleCamera) (normal sampleScope)"
    by (simp add: sample_in_front)
  have e: "length (rendered sampleRenderer) = 0" "rt_id (renderTarget sampleScope) = 1"
    by (simp_all add: sampleRenderer_def sampleScope_def)
  note th = textureMatrix_uses_unadjusted_projection [OF f, of sampleThree sampleRenderer 0]
  from th have others: "\<forall>i. i \<notin> {2, 6, 10, 14} \<longrightarrow>
      projectionMatrix (rc_camera (rendered (snd (onBeforeRender sampleThree sampleScope sampleRenderer 0 sampleCamera)) ! length (rendered sampleRenderer))) ! i =
      projectionMatrix sampleCamera ! i"
    by simp
  from others [rule_format, of 11] e
  have kept: "projectionMatrix (rc_camera (rendered (snd (onBeforeRender sampleThree sampleScope sampleRenderer 0 sampleCamera)) ! 0)) ! 11 = projectionMatrix sampleCamera ! 11"
    by simp
  from th f e kept show ?thesis by (simp add: sample_textureMatrix)
qed

subsection \<open>C5: the renderer's state around the offscreen render\<close>

text \<open>
  C5 does not hold of the code. The hook reads the render target and the two flags only
  after the offscreen render and after \<open>setRenderTarget(null)\<close>; it clears and restores
  the flags with no render in between. In the sample frame the host renderer enters
  with render target 7 and both flags on: the offscreen render into target 1 runs with
  XR and automatic shadow updates enabled, and the hook returns with the render target
  set to \<open>null\<close>.
\<close>

theorem renderer_state_not_restored:
  "currentRenderTarget sampleRenderer = Some 7 \<and>
   currentRenderTarget (snd (onBeforeRender sampleThree sampleScope sampleRenderer 0 sampleCamera)) = None \<and>
   rc_target (rendered (snd (onBeforeRender sampleThree sampleScope sampleRenderer 0 sampleCamera)) ! 0) = Some 1 \<and>
   rc_xr_enabled (rendered (snd (onBeforeRender sampleThree sampleScope sampleRenderer 0 sampleCamera)) ! 0) = True \<and>
   rc_shadowMap_autoUpdate (rendered (snd (onBeforeRender sampleThree sampleScope sampleRenderer 0 sampleCamera)) ! 0) = True"
  by (simp add: sample_offscreen_call run_renderer sample_in_front) (simp add: sampleRenderer_def)

subsection \<open>C6: the render with the real camera\<close>

text \<open>
  C6, as the specification states it, fails: the hook itself renders the scene with the
  real camera. In the sample frame the renderer has rendered nothing on entry, and on
  return its log holds two calls, the second with the real camera.
\<close>

theorem onBeforeRender_issues_real_camera_render:
  "\<not> 0 < v3_dot (view sampleScope sampleCamera) (normal sampleScope) \<and>
   rendered sampleRenderer = [] \<and>
   length (rendered (snd (onBeforeRender sampleThree sampleScope sampleRenderer 0 sampleCamera))) = 2 \<and>
   rc_camera (rendered (snd (onBeforeRender sampleThree sampleScope sampleRenderer 0 sampleCamera)) ! 1) = sampleCamera"
  by (simp add: sample_host_call sample_in_front run_rendered) (simp add: sampleRenderer_def)

text \<open>
  C6, amended. For every frame that is not skipped, the core hides the surface node,
  itself renders the scene with the real camera while the surface is hidden, and unhides
  the surface before it returns control to the host. (The render calls the hook adds to
  the renderer's log end with that render.)
\<close>

theorem real_camera_render_with_surface_hidden:
  assumes "\<not> 0 < v3_dot (view scope cam) (normal scope)"
  shows "(let calls = drop (length (rendered r)) (rendered (snd (onBeforeRender L scope r sc cam)))
          in take (length (rendered r)) (rendered (snd (onBeforeRender L scope r sc cam))) = rendered r \<and>
             calls \<noteq> [] \<and>
             rc_scene (last calls) = sc \<and>
             rc_camera (last calls) = cam \<and>
             rc_scope_visible (last calls) = False) \<and>
         scope_visible (fst (onBeforeRender L scope r sc cam)) = True"
  using assms by (simp add: run_rendered run_scope)

theorem real_camera_render_with_surface_hidden_witness:
  "\<not> 0 < v3_dot (view sampleScope sampleCamera) (normal sampleScope) \<and>
   rendered sampleRenderer = [] \<and>
   rendered (snd (onBeforeRender sampleThree sampleScope sampleRenderer 0 sampleCamera)) \<noteq> [] \<and>
   rc_scene (last (rendered (snd (onBeforeRender sampleThree sampleScope sampleRenderer 0 sampleCamera)))) = 0 \<and>
   rc_camera (last (rendered (snd (onBeforeRender sampleThree sampleScope sampleRenderer 0 sampleCamera)))) = sampleCamera \<and>
   rc_scope_visible (last (rendered (snd (onBeforeRender sampleThree sampleScope sampleRenderer 0 sampleCamera)))) = False \<and>
   scope_visible (fst (onBeforeRender sampleThree sampleScope sampleRenderer 0 sampleCamera)) = True"
proof -
  have f: "\<not> 0 < v3_dot (view sampleScope sampleCamera) (normal sampleScope)"
    by (simp add: sample_in_front)
  have e: "rendered sampleRenderer = []"
    by (simp add: sampleRenderer_def)
  from real_camera_render_with_surface_hidden
      [OF f, where L = sampleThree and r = sampleRenderer and sc = 0] f e
  show ?thesis by (simp add: Let_def)
qed

subsection \<open>C7: the horizontal mirror\<close>

text \<open>
  C7. For a horizontal mirror plane at \<open>y = 0\<close> with world normal \<open>(0, 1, 0)\<close> and the
  real camera at \<open>(0, 5, 10)\<close>, the mirror-camera derivation places the virtual camera at
  \<open>(0, -5, 10)\<close>, and the virtual camera's up vector is the camera's world up vector
  reflected in the plane, not negated: its \<open>y\<close> component changes sign, \<open>x\<close> and \<open>z\<close>
  stay.
\<close>

theorem horizontal_mirror_virtual_camera:
  assumes "cameraWorldPosition cam = Vector3 0 5 10"
    and "normal scope = Vector3 0 1 0"
    and "v3y (reflectorWorldPosition scope) = 0"
  shows "position (virtualCamera (fst (onBeforeRender L scope r sc cam))) = Vector3 0 (- 5) 10 \<and>
    (let cameraUp = v3_applyMatrix4 (Vector3 0 1 0) (extractRotation (matrixWorld cam))
     in up (virtualCamera (fst (onBeforeRender L scope r sc cam))) = v3_reflect cameraUp (normal scope) \<and>
        v3_reflect cameraUp (normal scope) =
          Vector3 (v3x cameraUp) (- v3y cameraUp) (v3z cameraUp))"
proof -
  obtain px py pz where p: "reflectorWorldPosition scope = Vector3 px py pz"
    by (cases "reflectorWorldPosition scope")
  with assms(3) have py: "py = 0" by simp
  have d: "v3_dot (view scope cam) (normal scope) = - 5"
    by (simp add: view_def assms(1,2) p py v3_dot_def subVectors_def)
  then have run: "\<not> 0 < v3_dot (view scope cam) (normal scope)" by simp
  have pos: "position (virtualCamera (fst (onBeforeRender L scope r sc cam))) = Vector3 0 (- 5) 10"
    by (simp add: run_virtualCamera [OF run])
       (simp add: deriveVirtualCamera_def Let_def view_def assms(1,2) p py
          v3_dot_def subVectors_def v3_add_def v3_negate_def v3_reflect_def v3_multiplyScalar_def)
  have u: "up (virtualCamera (fst (onBeforeRender L scope r sc cam))) =
      v3_reflect (v3_applyMatrix4 (Vector3 0 1 0) (extractRotation (matrixWorld cam))) (normal scope)"
    by (simp add: run_virtualCamera [OF run]) (simp add: deriveVirtualCamera_def Let_def)
  have refl: "v3_reflect w (normal scope) = Vector3 (v3x w) (- v3y w) (v3z w)" for w
    by (simp add: assms(2) v3_reflect_def v3_dot_def subVectors_def v3_multiplyScalar_def)
  from pos u refl show ?thesis by (simp add: Let_def)
qed

text \<open>The scenario itself, with the camera looking at the origin: its world up vector
  \<open>(0, 2, -1) / sqrt 5\<close> becomes \<open>(0, -2, -1) / sqrt 5\<close>.\<close>

theorem horizontal_mirror_virtual_camera_witness:
  "cameraWorldPosition scenarioCamera = Vector3 0 5 10 \<and>
   normal horizontalMirror = Vector3 0 1 0 \<and>
   v3y (reflectorWorldPosition horizontalMirror) = 0 \<and>
   position (virtualCamera (fst (onBeforeRender scenarioThree horizontalMirror sampleRenderer 0 scenarioCamera))) = Vector3 0 (- 5) 10 \<and>
   up (virtualCamera (fst (onBeforeRender scenarioThree horizontalMirror sampleRenderer 0 scenarioCamera))) = Vector3 0 (- 2 / sqrt 5) (- 1 / sqrt 5)"
proof -
  have c: "cameraWorldPosition scenarioCamera = Vector3 0 5 10"
    by (simp add: cameraWorldPosition_def scenarioCamera_def sampleCamera_def
          setFromMatrixPosition_def Matrix4_set_def)
  have n: "normal horizontalMirror = Vector3 0 1 0"
    by (simp add: normal_def horizontalMirror_def sampleScope_def vector_defs)
  have p: "v3y (reflectorWorldPosition horizontalMirror) = 0"
    by (simp add: reflectorWorldPosition_def horizontalMirror_def sampleScope_def
          setFromMatrixPosition_def Matrix4_set_def)
  from horizontal_mirror_virtual_camera [OF c n p, of scenarioThree sampleRenderer 0] c n p
  show ?thesis by (simp add: Let_def scenario_camera_up)
qed

subsection \<open>C8: the opacity uniform\<close>

text \<open>
  C8 does not hold of the code. The constructor passes the configured opacity to the
  \<open>ShaderMaterial\<close> as its \<open>opacity\<close> property and never writes the \<open>opacity\<close> uniform,
  as it does for \<open>tDiffuse\<close>, \<open>color\<close> and \<open>textureMatrix\<close>. Constructed with an
  opacity of 0.8 and the default shader, the material's \<open>opacity\<close> uniform is the
  shader's default 0.3 while its \<open>opacity\<close> property is 0.8.
\<close>

theorem opacity_uniform_keeps_shader_default:
  "(case Reflector_constructor unusedCamera 1 opacityOptions of
      Inl e \<Rightarrow> False
    | Inr this \<Rightarrow>
        uniforms (material this) ''opacity'' = Some (UFloat 0.3) \<and>
        opacity (material this) = 0.8 \<and>
        uniforms (material this) ''tDiffuse'' = Some (UTexture 1) \<and>
        uniforms (material this) ''color'' = Some (UColor 8355711) \<and>
        uniforms (material this) ''textureMatrix'' = Some UTextureMatrix)"
  by (simp add: Reflector_constructor_def opacityOptions_def noOptions_def ReflectorShader_def
        set_uniform_def js_or_def Let_def)

subsection \<open>C9: the overlay blend\<close>

text \<open>
  C9. The overlay blend \<open>base < 0.5 ? 2 * base * blend : 1 - 2 * (1 - base) * (1 - blend)\<close>
  satisfies, for every \<open>x\<close> in \<open>[0, 1]\<close>: \<open>blendOverlay(0, x) = 0\<close>,
  \<open>blendOverlay(1, x) = 1\<close> and \<open>blendOverlay(0.5, x) = x\<close> (in exact arithmetic).
\<close>

theorem blendOverlay_fixed_points:
  assumes "0 \<le> x" and "x \<le> 1"
  shows "blendOverlay 0 x = 0 \<and> blendOverlay 1 x = 1 \<and> blendOverlay 0.5 x = x"
  by (simp add: blendOverlay_def)

theorem blendOverlay_fixed_points_witness:
  "(0::real) \<le> 1 / 4 \<and> (1 / 4 :: real) \<le> 1 \<and> blendOverlay 0 (1 / 4) = 0
   \<and> blendOverlay 1 (1 / 4) = 1 \<and> blendOverlay 0.5 (1 / 4) = 1 / 4"
proof -
  have lo: "(0::real) \<le> 1 / 4" and hi: "(1 / 4 :: real) \<le> 1" by simp_all
  from blendOverlay_fixed_points [OF lo hi] lo hi show ?thesis by simp
qed

subsection \<open>C10: dispose\<close>

lemma hostListeners_filter:
  "hostListeners (filter (\<lambda>l. l \<noteq> RendererListener) ls) = hostListeners ls"
  by (induction ls rule: hostListeners.induct) simp_all

lemma dispose_eq:
  "dispose this =
     (this\<lparr>renderTarget := (renderTarget this)
              \<lparr>rt_listeners := filter (\<lambda>l. l \<noteq> RendererListener) (rt_listeners (renderTarget this))\<rparr>,
           material := (material this)
              \<lparr>mat_listeners := filter (\<lambda>l. l \<noteq> RendererListener) (mat_listeners (material this))\<rparr>\<rparr>,
      map (Pair TheRenderTarget) (hostListeners (rt_listeners (renderTarget this))) @
      map (Pair TheMaterial) (hostListeners (mat_listeners (material this))))"
  by (simp add: dispose_def WebGLRenderTarget_dispose_def Material_dispose_def
        dispatchDispose_def Let_def)

text \<open>
  C10, as the specification states it, fails: the second call is not a no-op. On an
  instance in use whose material carries a \<open>dispose\<close> listener of the host's, the first
  call of \<open>dispose\<close> calls that listener, and the second call on the instance the first
  one left calls it again.
\<close>

theorem dispose_twice_notifies_twice:
  "snd (dispose listenedScope) = [(TheMaterial, 5)] \<and>
   snd (dispose (fst (dispose listenedScope))) = [(TheMaterial, 5)]"
  by (simp add: dispose_eq hostListeners_filter)
     (simp add: listenedScope_def inUseScope_def sampleScope_def registerRenderer_def
        addEventListener_def)

text \<open>
  C10, amended. For every instance, calling \<open>dispose\<close> once releases the GPU resources of
  the instance's own offscreen render target and the compiled resources of its own
  shading material, and changes nothing else of the instance; calling it a second time
  on the same instance does not throw and releases nothing further, the instance staying
  exactly as the first call left it; but the second call dispatches the two \<open>dispose\<close>
  events again, so that the listeners the host registered on the render target or the
  material are called once more. \<open>dispose\<close> has no failing step: it calls the two
  library \<open>dispose\<close> methods on \<open>this.renderTarget\<close> and \<open>this.material\<close>, which the
  constructor has set and which \<open>dispose\<close> leaves in place, so the second call finds
  them as the first did.
\<close>

theorem dispose_releases_own_resources_once:
  "\<not> rt_gpu_allocated (renderTarget (fst (dispose this))) \<and>
   \<not> mat_gpu_allocated (material (fst (dispose this))) \<and>
   fst (dispose this) =
     this\<lparr>renderTarget := (renderTarget this)
             \<lparr>rt_listeners := filter (\<lambda>l. l \<noteq> RendererListener) (rt_listeners (renderTarget this))\<rparr>,
          material := (material this)
             \<lparr>mat_listeners := filter (\<lambda>l. l \<noteq> RendererListener) (mat_listeners (material this))\<rparr>\<rparr> \<and>
   fst (dispose (fst (dispose this))) = fst (dispose this) \<and>
   snd (dispose this) =
     map (Pair TheRenderTarget) (hostListeners (rt_listeners (renderTarget this))) @
     map (Pair TheMaterial) (hostListeners (mat_listeners (material this))) \<and>
   snd (dispose (fst (dispose this))) = snd (dispose this)"
  by (simp add: dispose_eq hostListeners_filter rt_gpu_allocated_def mat_gpu_allocated_def)

text \<open>On the sample mirror in use both resources are held before the call and released
  after it, and nothing else of the instance changes: without listeners of the host's,
  the call returns the mirror as the constructor built it.\<close>

theorem dispose_releases_own_resources_once_witness:
  "rt_gpu_allocated (renderTarget inUseScope) \<and>
   mat_gpu_allocated (material inUseScope) \<and>
   \<not> rt_gpu_allocated (renderTarget (fst (dispose inUseScope))) \<and>
   \<not> mat_gpu_allocated (material (fst (dispose inUseScope))) \<and>
   fst (dispose inUseScope) = sampleScope \<and>
   fst (dispose (fst (dispose inUseScope))) = sampleScope \<and>
   snd (dispose inUseScope) = []"
proof -
  have a: "rt_gpu_allocated (renderTarget inUseScope)" "mat_gpu_allocated (material inUseScope)"
    by (simp_all add: rt_gpu_allocated_def mat_gpu_allocated_def inUseScope_def sampleScope_def
          registerRenderer_def addEventListener_def)
  have l: "rt_listeners (renderTarget inUseScope) = [RendererListener]"
    "mat_listeners (material inUseScope) = [RendererListener]"
    by (simp_all add: inUseScope_def sampleScope_def registerRenderer_def addEventListener_def)
  have s: "inUseScope
      \<lparr>renderTarget := (renderTarget inUseScope)\<lparr>rt_listeners := []\<rparr>,
       material := (material inUseScope)\<lparr>mat_listeners := []\<rparr>\<rparr> = sampleScope"
    by (simp add: inUseScope_def sampleScope_def)
  note th = dispose_releases_own_resources_once [of inUseScope]
  from th have released: "\<not> rt_gpu_allocated (renderTarget (fst (dispose inUseScope)))"
    "\<not> mat_gpu_allocated (material (fst (dispose inUseScope)))"
    by blast+
  from th l s have first: "fst (dispose inUseScope) = sampleScope"
    by simp
  from th have "fst (dispose (fst (dispose inUseScope))) = fst (dispose inUseScope)"
    by blast
  with first have second: "fst (dispose (fst (dispose inUseScope))) = sampleScope"
    by simp
  from th l have called: "snd (dispose inUseScope) = []"
    by simp
  from a released first second called show ?thesis by blast
qed

end
